theory Spec2Isabelle
  imports Main
begin

section \<open>Values crossing the API boundary\<close>

text \<open>
  The services throw NestJS HTTP exceptions; every \<open>throw\<close> of the source is an
  \<open>Inl\<close> of this type, carrying the message. \<open>PrismaClientError\<close> stands for any
  error raised by the persistence client itself (a failed write, a violated unique index,
  a record to update or delete that does not exist).
\<close>

datatype exn =
    NotFoundException string
  | BadRequestException string
  | ConflictException string
  | PrismaClientError

text \<open>
  An optional property of a DTO (\<open>field?: T\<close>, validated with \<open>@IsOptional()\<close>) reaches
  the service as \<open>undefined\<close>, as \<open>null\<close> (which \<open>@IsOptional()\<close> lets through) or as
  a validated value. Identifiers are UUID strings in the source and natural numbers here;
  \<open>@IsUUID()\<close> and \<open>@IsDateString()\<close> exclude the empty string, so a defined identifier
  or date is truthy. Free-text strings may be empty, and the empty string is falsy.
\<close>

datatype 'a js_optional = Undefined | Null | Defined 'a

fun truthy :: "'a js_optional \<Rightarrow> bool" where
  "truthy (Defined v) = True"
| "truthy Undefined = False"
| "truthy Null = False"

fun truthy_string :: "string js_optional \<Rightarrow> bool" where
  "truthy_string (Defined s) = (s \<noteq> [])"
| "truthy_string Undefined = False"
| "truthy_string Null = False"

text \<open>
  Prisma's reading of an optional value: in the data of a \<open>create\<close>, \<open>undefined\<close> and
  \<open>null\<close> both leave a nullable column NULL; in the data of an \<open>update\<close>, \<open>undefined\<close>
  leaves the column as it is and \<open>null\<close> sets it to NULL.
\<close>

fun create_column :: "'a js_optional \<Rightarrow> 'a option" where
  "create_column (Defined v) = Some v"
| "create_column Undefined = None"
| "create_column Null = None"

fun update_column :: "'a js_optional \<Rightarrow> 'a option \<Rightarrow> 'a option" where
  "update_column (Defined v) old = Some v"
| "update_column Undefined old = old"
| "update_column Null old = None"

text \<open>
  Decimal numerals. A template literal converts a number with the runtime's
  \<open>Number::toString\<close>, which is the decimal numeral for integers of magnitude below
  \<open>2^53\<close> and differs from it beyond (shortest round-trip digits, exponent form from
  \<open>1e21\<close> on). The functions that interpolate numbers into messages therefore take
  the conversion as a parameter. \<open>show_nat\<close> renders the model's natural-number
  identifiers, and \<open>decimal\<close> is the conversion used in the examples, whose numbers
  are small.
\<close>

fun show_nat :: "nat \<Rightarrow> string" where
  "show_nat n =
     (if n < 10 then [char_of (48 + n)]
      else show_nat (n div 10) @ [char_of (48 + n mod 10)])"

definition decimal :: "int \<Rightarrow> string" where
  "decimal i = (if i < 0 then CHR ''-'' # show_nat (nat (- i)) else show_nat (nat i))"

fun join :: "string \<Rightarrow> string list \<Rightarrow> string" where
  "join sep [] = []"
| "join sep [x] = x"
| "join sep (x # y # ys) = x @ sep @ join sep (y # ys)"

section \<open>Schema\<close>

text \<open>
  Rows carry the columns the services read or write. Column names are the Prisma field
  names behind a table tag, because record fields share one name space. Tables that are
  only probed for the existence of a key (sites, departments, logical tests) are lists
  of keys.
\<close>

datatype UserRole = admin | psychologue | candidate

datatype ApplicationStatus = app_pending | approved | rejected | withdrawn

datatype CandidatureStatus =
  pending | assigned | in_progress | completed | in_review | evaluated | archived

datatype DecisionType = favorable | defavorable

record User =
  u_id :: nat
  u_role :: UserRole
  u_firstName :: string
  u_lastName :: string

record PersonalityTest =
  pt_id :: nat
  pt_isActive :: bool

record JobApplication =
  ja_id :: nat
  ja_candidateId :: nat
  ja_siteId :: nat
  ja_departmentId :: nat
  ja_targetPosition :: string
  ja_status :: ApplicationStatus
  ja_reviewedBy :: "nat option"
  ja_reviewedAt :: "nat option"

record Candidature =
  c_id :: nat
  c_jobApplicationId :: nat
  c_assignedPsychologueId :: "nat option"
  c_assignedBy :: "nat option"
  c_dpNumber :: "string option"
  c_status :: CandidatureStatus
  c_assignedLogicalTestId :: "nat option"
  c_assignedPersonalityTestId :: "nat option"
  c_assignedOptionalLogicalTestId :: "nat option"
  c_assignmentDate :: "nat option"
  c_examDate :: "nat option"
  c_decision :: "DecisionType option"
  c_decisionDate :: "nat option"
  c_decisionBy :: "nat option"
  c_decisionComments :: "string option"
  c_previousCandidatureId :: "nat option"
  c_isReevaluation :: bool

record CandidatureStateTransition =
  t_id :: nat
  t_candidatureId :: nat
  t_fromStatus :: "CandidatureStatus option"
  t_toStatus :: CandidatureStatus
  t_transitionedBy :: nat
  t_transitionedAt :: nat
  t_reason :: "string option"

record Language =
  l_code :: string
  l_name :: string
  l_isActive :: bool
  l_isDefault :: bool

record LogicalTestTranslation =
  tt_testId :: nat
  tt_languageCode :: string
  tt_name :: string
  tt_description :: "string option"
  tt_instructions :: string

record LogicalQuestionTranslation =
  qt_questionId :: nat
  qt_languageCode :: string
  qt_title :: string
  qt_instruction :: string
  qt_hints :: "string list"

record McqPropositionTranslation =
  mt_propositionId :: nat
  mt_languageCode :: string
  mt_text :: string

record ScoreClassificationTranslationDto =
  languageCode :: string
  label :: string
  description :: "string option"

record ScoreClassificationItemDto =
  displayOrder :: int
  minScore :: int
  maxScore :: int
  colorCode :: "string option"
  item_translations :: "ScoreClassificationTranslationDto list"

record ScoreClassification =
  sc_id :: nat
  sc_testId :: nat
  sc_displayOrder :: int
  sc_minScore :: int
  sc_maxScore :: int
  sc_colorCode :: "string option"
  sc_translations :: "ScoreClassificationTranslationDto list"

text \<open>
  The database. \<open>nextId\<close> is the source of generated primary keys. \<open>faultAfter\<close> is the
  persistence layer's readiness to fail: \<open>None\<close> means that no write fails, \<open>Some n\<close>
  that the next \<open>n\<close> writes succeed and the one after them is refused.
\<close>

record db =
  users :: "User list"
  sites :: "nat list"
  departments :: "nat list"
  jobApplications :: "JobApplication list"
  candidatures :: "Candidature list"
  candidatureStateTransitions :: "CandidatureStateTransition list"
  logicalTests :: "nat list"
  personalityTests :: "PersonalityTest list"
  languages :: "Language list"
  logicalTestTranslations :: "LogicalTestTranslation list"
  logicalQuestionTranslations :: "LogicalQuestionTranslation list"
  mcqPropositionTranslations :: "McqPropositionTranslation list"
  scoreClassifications :: "ScoreClassification list"
  nextId :: nat
  faultAfter :: "nat option"

section \<open>Persistence primitives\<close>

text \<open>
  A write goes through \<open>db_write\<close>: it is refused when the fault budget is exhausted,
  and otherwise applied, consuming one unit of the budget.
\<close>

definition db_write :: "(db \<Rightarrow> 'a \<times> db) \<Rightarrow> db \<Rightarrow> (exn + 'a) \<times> db" where
  "db_write f s =
     (case faultAfter s of
        None \<Rightarrow> (case f s of (r, s') \<Rightarrow> (Inr r, s'))
      | Some 0 \<Rightarrow> (Inl PrismaClientError, s)
      | Some (Suc n) \<Rightarrow> (case f s of (r, s') \<Rightarrow> (Inr r, s'\<lparr>faultAfter := Some n\<rparr>)))"

text \<open>
  \<open>prisma.$transaction(async (tx) => ...)\<close>: when the callback throws, every write it
  made is rolled back and the exception propagates.
\<close>

definition transaction :: "(db \<Rightarrow> (exn + 'a) \<times> db) \<Rightarrow> db \<Rightarrow> (exn + 'a) \<times> db" where
  "transaction body s =
     (case body s of
        (Inl e, s') \<Rightarrow> (Inl e, s)
      | (Inr r, s') \<Rightarrow> (Inr r, s'))"

section \<open>TranslationsService\<close>

definition DEFAULT_LANGUAGE_CODE :: string where
  "DEFAULT_LANGUAGE_CODE = ''fr''"

text \<open>\<open>prisma.language.findFirst({ where: { isDefault: true } })\<close>, then \<open>?? DEFAULT_LANGUAGE_CODE\<close>.\<close>

definition getDefaultLanguageCode :: "db \<Rightarrow> string" where
  "getDefaultLanguageCode s =
     (case find l_isDefault (languages s) of
        Some defaultLang \<Rightarrow> l_code defaultLang
      | None \<Rightarrow> DEFAULT_LANGUAGE_CODE)"

definition resolveLanguageCode :: "string \<Rightarrow> db \<Rightarrow> string" where
  "resolveLanguageCode requestedLang s =
     (case find (\<lambda>l. l_code l = requestedLang \<and> l_isActive l) (languages s) of
        Some language \<Rightarrow> requestedLang
      | None \<Rightarrow> getDefaultLanguageCode s)"

definition logicalTestTranslation_findUnique ::
  "nat \<Rightarrow> string \<Rightarrow> db \<Rightarrow> LogicalTestTranslation option" where
  "logicalTestTranslation_findUnique testId langCode s =
     find (\<lambda>t. tt_testId t = testId \<and> tt_languageCode t = langCode) (logicalTestTranslations s)"

definition logicalQuestionTranslation_findUnique ::
  "nat \<Rightarrow> string \<Rightarrow> db \<Rightarrow> LogicalQuestionTranslation option" where
  "logicalQuestionTranslation_findUnique questionId langCode s =
     find (\<lambda>t. qt_questionId t = questionId \<and> qt_languageCode t = langCode)
       (logicalQuestionTranslations s)"

text \<open>
  \<open>getTestTranslation\<close> returns the translation (\<open>None\<close> is the source's \<open>null\<close>)
  together with the keys it passed to \<open>logicalTestTranslation.findUnique\<close>, in order.
\<close>

definition getTestTranslation ::
  "nat \<Rightarrow> string \<Rightarrow> db \<Rightarrow> LogicalTestTranslation option \<times> (nat \<times> string) list" where
  "getTestTranslation testId requestedLang s =
     (let lang = resolveLanguageCode requestedLang s;
          translation = logicalTestTranslation_findUnique testId lang s
      in if translation = None \<and> lang \<noteq> DEFAULT_LANGUAGE_CODE
         then (logicalTestTranslation_findUnique testId DEFAULT_LANGUAGE_CODE s,
               [(testId, lang), (testId, DEFAULT_LANGUAGE_CODE)])
         else (translation, [(testId, lang)]))"

text \<open>\<open>[...new Set(codes)]\<close> keeps the first occurrence of each code, in order.\<close>

definition unique_in_order :: "'a list \<Rightarrow> 'a list" where
  "unique_in_order xs = rev (remdups (rev xs))"

definition validateLanguageCodes :: "string list \<Rightarrow> db \<Rightarrow> exn + unit" where
  "validateLanguageCodes codes s =
     (let uniqueCodes = unique_in_order codes;
          found = filter (\<lambda>l. List.member uniqueCodes (l_code l) \<and> l_isActive l) (languages s);
          foundCodes = map l_code found;
          invalidCodes = filter (\<lambda>c. \<not> List.member foundCodes c) uniqueCodes
      in if length invalidCodes > 0
         then Inl (BadRequestException
                (''Invalid or inactive language codes: '' @ join '', '' invalidCodes))
         else Inr ())"

datatype TranslationModel =
  logicalTestTranslation | logicalQuestionTranslation | mcqPropositionTranslation

definition translation_count :: "TranslationModel \<Rightarrow> nat \<Rightarrow> db \<Rightarrow> nat" where
  "translation_count model parentId s =
     (case model of
        logicalTestTranslation \<Rightarrow>
          length (filter (\<lambda>t. tt_testId t = parentId) (logicalTestTranslations s))
      | logicalQuestionTranslation \<Rightarrow>
          length (filter (\<lambda>t. qt_questionId t = parentId) (logicalQuestionTranslations s))
      | mcqPropositionTranslation \<Rightarrow>
          length (filter (\<lambda>t. mt_propositionId t = parentId) (mcqPropositionTranslations s)))"

definition ensureNotDeletingDefaultTranslation ::
  "TranslationModel \<Rightarrow> nat \<Rightarrow> string \<Rightarrow> db \<Rightarrow> exn + unit" where
  "ensureNotDeletingDefaultTranslation model parentId langCode s =
     (let defaultLang = getDefaultLanguageCode s
      in if langCode = defaultLang
         then (let count = translation_count model parentId s
               in if count \<le> 1
                  then Inl (BadRequestException
                    ''Cannot delete the last remaining translation. At least one translation must exist.'')
                  else Inr ())
         else Inr ())"

text \<open>\<open>prisma.*.delete\<close> throws when no row has the compound key.\<close>

definition deleteTestTranslation ::
  "nat \<Rightarrow> string \<Rightarrow> db \<Rightarrow> (exn + LogicalTestTranslation) \<times> db" where
  "deleteTestTranslation testId langCode s =
     (case ensureNotDeletingDefaultTranslation logicalTestTranslation testId langCode s of
        Inl e \<Rightarrow> (Inl e, s)
      | Inr u \<Rightarrow>
          (case logicalTestTranslation_findUnique testId langCode s of
             None \<Rightarrow> (Inl PrismaClientError, s)
           | Some row \<Rightarrow>
               db_write (\<lambda>d. (row, d\<lparr>logicalTestTranslations :=
                 filter (\<lambda>t. \<not> (tt_testId t = testId \<and> tt_languageCode t = langCode))
                   (logicalTestTranslations d)\<rparr>)) s))"

definition deleteQuestionTranslation ::
  "nat \<Rightarrow> string \<Rightarrow> db \<Rightarrow> (exn + LogicalQuestionTranslation) \<times> db" where
  "deleteQuestionTranslation questionId langCode s =
     (case ensureNotDeletingDefaultTranslation logicalQuestionTranslation questionId langCode s of
        Inl e \<Rightarrow> (Inl e, s)
      | Inr u \<Rightarrow>
          (case logicalQuestionTranslation_findUnique questionId langCode s of
             None \<Rightarrow> (Inl PrismaClientError, s)
           | Some row \<Rightarrow>
               db_write (\<lambda>d. (row, d\<lparr>logicalQuestionTranslations :=
                 filter (\<lambda>t. \<not> (qt_questionId t = questionId \<and> qt_languageCode t = langCode))
                   (logicalQuestionTranslations d)\<rparr>)) s))"

section \<open>TestsService: score classifications\<close>

record UpsertClassificationsDto =
  classifications :: "ScoreClassificationItemDto list"

text \<open>
  The first loop of \<open>validateClassificationRanges\<close>, over the sorted items.
  \<open>toString\<close> is the runtime's conversion of a number in a template literal.
\<close>

fun check_min_max :: "(int \<Rightarrow> string) \<Rightarrow> ScoreClassificationItemDto list \<Rightarrow> exn + unit" where
  "check_min_max toString [] = Inr ()"
| "check_min_max toString (c # cs) =
     (if minScore c > maxScore c
      then Inl (BadRequestException
        (''Classification at displayOrder '' @ toString (displayOrder c) @ '': minScore (''
          @ toString (minScore c) @ '') cannot be greater than maxScore (''
          @ toString (maxScore c) @ '')''))
      else check_min_max toString cs)"

text \<open>The second loop: \<open>prev = sorted[i - 1]\<close>, \<open>cur = sorted[i]\<close> (the source's \<open>curr\<close>), from \<open>i = 1\<close>.\<close>

fun check_overlap :: "(int \<Rightarrow> string) \<Rightarrow> ScoreClassificationItemDto list \<Rightarrow> exn + unit" where
  "check_overlap toString [] = Inr ()"
| "check_overlap toString [c] = Inr ()"
| "check_overlap toString (prev # cur # rest) =
     (if minScore cur \<le> maxScore prev
      then Inl (BadRequestException
        (''Score range overlap between displayOrder '' @ toString (displayOrder prev) @ '' (''
          @ toString (minScore prev) @ ''-'' @ toString (maxScore prev) @ '') and ''
          @ toString (displayOrder cur) @ '' ('' @ toString (minScore cur) @ ''-''
          @ toString (maxScore cur) @ '')''))
      else check_overlap toString (cur # rest))"

text \<open>
  \<open>[...classifications].sort((a, b) => a.displayOrder - b.displayOrder)\<close> is a stable
  ascending sort, as \<open>sort_key\<close> is.
\<close>

definition validateClassificationRanges ::
  "(int \<Rightarrow> string) \<Rightarrow> ScoreClassificationItemDto list \<Rightarrow> exn + unit" where
  "validateClassificationRanges toString cs =
     (let sorted = sort_key displayOrder cs
      in case check_min_max toString sorted of
           Inl e \<Rightarrow> Inl e
         | Inr u \<Rightarrow> check_overlap toString sorted)"

definition scoreClassification_deleteMany :: "nat \<Rightarrow> db \<Rightarrow> (exn + unit) \<times> db" where
  "scoreClassification_deleteMany testId s =
     db_write (\<lambda>d. ((), d\<lparr>scoreClassifications :=
       filter (\<lambda>r. sc_testId r \<noteq> testId) (scoreClassifications d)\<rparr>)) s"

text \<open>
  \<open>scoreClassification.create\<close> with the nested translations. The table has a unique
  index on \<open>(test_id, display_order)\<close> (\<open>score_classifications_test_id_display_order_key\<close>
  in the migration \<open>add_phase2\<close>); the insert of a second row with the same pair is
  refused by the database.
\<close>

definition scoreClassification_create ::
  "nat \<Rightarrow> ScoreClassificationItemDto \<Rightarrow> db \<Rightarrow> (exn + ScoreClassification) \<times> db" where
  "scoreClassification_create testId item s =
     (if list_ex (\<lambda>r. sc_testId r = testId \<and> sc_displayOrder r = displayOrder item)
           (scoreClassifications s)
      then (Inl PrismaClientError, s)
      else db_write (\<lambda>d.
        (let row = \<lparr>sc_id = nextId d, sc_testId = testId,
                     sc_displayOrder = displayOrder item, sc_minScore = minScore item,
                     sc_maxScore = maxScore item, sc_colorCode = colorCode item,
                     sc_translations = item_translations item\<rparr>
         in (row, d\<lparr>scoreClassifications := scoreClassifications d @ [row],
                     nextId := Suc (nextId d)\<rparr>))) s)"

text \<open>\<open>for (const item of dto.classifications) { await tx.scoreClassification.create(...) }\<close>\<close>

fun create_each :: "nat \<Rightarrow> ScoreClassificationItemDto list \<Rightarrow> db \<Rightarrow> (exn + unit) \<times> db" where
  "create_each testId [] s = (Inr (), s)"
| "create_each testId (item # items) s =
     (case scoreClassification_create testId item s of
        (Inl e, s') \<Rightarrow> (Inl e, s')
      | (Inr row, s') \<Rightarrow> create_each testId items s')"

text \<open>
  \<open>upsertClassifications\<close>. After the transaction the source invalidates cache keys
  (failures swallowed) and returns the read view \<open>getClassifications(testId, 'fr')\<close>,
  which goes through the cache collaborator; the model returns \<open>()\<close> for it.
\<close>

definition upsertClassifications ::
  "(int \<Rightarrow> string) \<Rightarrow> nat \<Rightarrow> UpsertClassificationsDto \<Rightarrow> db \<Rightarrow> (exn + unit) \<times> db" where
  "upsertClassifications toString testId dto s =
     (if \<not> List.member (logicalTests s) testId
      then (Inl (NotFoundException (''Test with ID \"'' @ show_nat testId @ ''\" not found'')), s)
      else case validateClassificationRanges toString (classifications dto) of
        Inl e \<Rightarrow> (Inl e, s)
      | Inr u \<Rightarrow>
          (let allLangCodes =
                 concat (map (\<lambda>c. map languageCode (item_translations c)) (classifications dto))
           in case validateLanguageCodes allLangCodes s of
                Inl e \<Rightarrow> (Inl e, s)
              | Inr u \<Rightarrow>
                  transaction (\<lambda>tx.
                    case scoreClassification_deleteMany testId tx of
                      (Inl e, tx') \<Rightarrow> (Inl e, tx')
                    | (Inr u, tx') \<Rightarrow> create_each testId (classifications dto) tx') s))"

text \<open>The rows of a test as stored, and the item a row holds.\<close>

definition stored_item :: "ScoreClassification \<Rightarrow> ScoreClassificationItemDto" where
  "stored_item r =
     \<lparr>displayOrder = sc_displayOrder r, minScore = sc_minScore r, maxScore = sc_maxScore r,
      colorCode = sc_colorCode r, item_translations = sc_translations r\<rparr>"

definition stored_classifications :: "nat \<Rightarrow> db \<Rightarrow> ScoreClassificationItemDto list" where
  "stored_classifications testId s =
     map stored_item (filter (\<lambda>r. sc_testId r = testId) (scoreClassifications s))"

section \<open>CandidaturesService\<close>

subsection \<open>DTOs\<close>

record CreateCandidatureDto =
  cd_jobApplicationId :: nat
  cd_dpNumber :: "string js_optional"
  cd_assignedPsychologueId :: "nat js_optional"
  cd_examDate :: "nat js_optional"

record CreateManualCandidatureDto =
  cm_candidateId :: nat
  cm_siteId :: nat
  cm_departmentId :: nat
  cm_positionApplied :: "string js_optional"
  cm_dpNumber :: "string js_optional"
  cm_assignedPsychologueId :: "nat js_optional"
  cm_previousCandidatureId :: "nat js_optional"

record UpdateCandidatureDto =
  ud_dpNumber :: "string js_optional"
  ud_examDate :: "nat js_optional"
  ud_assignedPsychologueId :: "nat js_optional"

record AssignPsychologueDto =
  psychologueId :: nat

record AssignTestsDto =
  at_logicalTestId :: nat
  at_optionalLogicalTestId :: "nat js_optional"
  at_includePersonalityTest :: "bool js_optional"
  at_examDate :: "nat js_optional"
  at_notifyCandidate :: "bool js_optional"

record MakeDecisionDto =
  md_decision :: DecisionType
  md_comments :: "string js_optional"

subsection \<open>Prisma calls on the candidature tables\<close>

definition user_findUnique :: "nat \<Rightarrow> db \<Rightarrow> User option" where
  "user_findUnique i s = find (\<lambda>u. u_id u = i) (users s)"

definition jobApplication_findUnique :: "nat \<Rightarrow> db \<Rightarrow> JobApplication option" where
  "jobApplication_findUnique i s = find (\<lambda>a. ja_id a = i) (jobApplications s)"

definition candidature_findUnique :: "nat \<Rightarrow> db \<Rightarrow> Candidature option" where
  "candidature_findUnique i s = find (\<lambda>c. c_id c = i) (candidatures s)"

text \<open>The relation \<open>jobApplication.candidature\<close> loaded by \<open>include: { candidature: true }\<close>.\<close>

definition jobApplication_candidature :: "nat \<Rightarrow> db \<Rightarrow> Candidature option" where
  "jobApplication_candidature appId s = find (\<lambda>c. c_jobApplicationId c = appId) (candidatures s)"

text \<open>A \<open>create\<close> stores the data under a generated primary key and returns the row.\<close>

definition jobApplication_create :: "JobApplication \<Rightarrow> db \<Rightarrow> (exn + JobApplication) \<times> db" where
  "jobApplication_create data s =
     db_write (\<lambda>d.
       (let row = data\<lparr>ja_id := nextId d\<rparr>
        in (row, d\<lparr>jobApplications := jobApplications d @ [row], nextId := Suc (nextId d)\<rparr>))) s"

definition candidature_create :: "Candidature \<Rightarrow> db \<Rightarrow> (exn + Candidature) \<times> db" where
  "candidature_create data s =
     db_write (\<lambda>d.
       (let row = data\<lparr>c_id := nextId d\<rparr>
        in (row, d\<lparr>candidatures := candidatures d @ [row], nextId := Suc (nextId d)\<rparr>))) s"

definition candidatureStateTransition_create ::
  "CandidatureStateTransition \<Rightarrow> db \<Rightarrow> (exn + unit) \<times> db" where
  "candidatureStateTransition_create data s =
     db_write (\<lambda>d.
       (let row = data\<lparr>t_id := nextId d\<rparr>
        in ((), d\<lparr>candidatureStateTransitions := candidatureStateTransitions d @ [row],
                    nextId := Suc (nextId d)\<rparr>))) s"

text \<open>An \<open>update\<close> throws when no row has the key; otherwise it returns the updated row.\<close>

definition candidature_update ::
  "nat \<Rightarrow> (Candidature \<Rightarrow> Candidature) \<Rightarrow> db \<Rightarrow> (exn + Candidature) \<times> db" where
  "candidature_update i f s =
     (case candidature_findUnique i s of
        None \<Rightarrow> (Inl PrismaClientError, s)
      | Some row \<Rightarrow>
          db_write (\<lambda>d. (f row, d\<lparr>candidatures :=
            map (\<lambda>c. if c_id c = i then f c else c) (candidatures d)\<rparr>)) s)"

text \<open>
  \<open>if (id) { psychologue = user.findUnique(id);
  if (!psychologue || psychologue.role !== UserRole.psychologue) throw ... }\<close>:
  the condition under which the source throws \<open>Invalid psychologue ID\<close>.
\<close>

fun invalid_psychologue :: "nat js_optional \<Rightarrow> db \<Rightarrow> bool" where
  "invalid_psychologue (Defined pid) s =
     (case user_findUnique pid s of
        None \<Rightarrow> True
      | Some p \<Rightarrow> u_role p \<noteq> psychologue)"
| "invalid_psychologue Undefined s = False"
| "invalid_psychologue Null s = False"

subsection \<open>Create methods\<close>

text \<open>
  \<open>create\<close>: the candidature and, when a psychologue is assigned at once, the transition
  log entry are written by two separate calls on \<open>this.prisma\<close>, outside any transaction.
  \<open>now\<close> is the clock read by the database default of \<open>transitionedAt\<close>.
\<close>

definition create ::
  "CreateCandidatureDto \<Rightarrow> nat \<Rightarrow> nat \<Rightarrow> db \<Rightarrow> (exn + Candidature) \<times> db" where
  "create dto assignedBy now s =
     (case jobApplication_findUnique (cd_jobApplicationId dto) s of
        None \<Rightarrow> (Inl (NotFoundException ''Job application not found''), s)
      | Some jobApplication \<Rightarrow>
          if ja_status jobApplication \<noteq> approved
          then (Inl (BadRequestException
                  ''Job application must be approved before creating candidature''), s)
          else if jobApplication_candidature (ja_id jobApplication) s \<noteq> None
          then (Inl (ConflictException ''Job application already has a candidature''), s)
          else if invalid_psychologue (cd_assignedPsychologueId dto) s
          then (Inl (BadRequestException ''Invalid psychologue ID''), s)
          else
            (case candidature_create
                    \<lparr>c_id = 0,
                     c_jobApplicationId = cd_jobApplicationId dto,
                     c_assignedPsychologueId = create_column (cd_assignedPsychologueId dto),
                     c_assignedBy =
                       (if truthy (cd_assignedPsychologueId dto) then Some assignedBy else None),
                     c_dpNumber = create_column (cd_dpNumber dto),
                     c_status =
                       (if truthy (cd_assignedPsychologueId dto) then assigned else pending),
                     c_assignedLogicalTestId = None,
                     c_assignedPersonalityTestId = None,
                     c_assignedOptionalLogicalTestId = None,
                     c_assignmentDate = None,
                     c_examDate =
                       (if truthy (cd_examDate dto) then create_column (cd_examDate dto) else None),
                     c_decision = None,
                     c_decisionDate = None,
                     c_decisionBy = None,
                     c_decisionComments = None,
                     c_previousCandidatureId = None,
                     c_isReevaluation = False\<rparr> s of
               (Inl e, s1) \<Rightarrow> (Inl e, s1)
             | (Inr candidature, s1) \<Rightarrow>
                 if truthy (cd_assignedPsychologueId dto)
                 then (case candidatureStateTransition_create
                              \<lparr>t_id = 0,
                               t_candidatureId = c_id candidature,
                               t_fromStatus = Some pending,
                               t_toStatus = assigned,
                               t_transitionedBy = assignedBy,
                               t_transitionedAt = now,
                               t_reason = Some ''Initial assignment''\<rparr> s1 of
                         (Inl e, s2) \<Rightarrow> (Inl e, s2)
                       | (Inr u, s2) \<Rightarrow> (Inr candidature, s2))
                 else (Inr candidature, s1)))"

text \<open>
  \<open>createManual\<close>: the job application and the candidature are created in one
  transaction; no transition log entry is created.
\<close>

definition createManual ::
  "CreateManualCandidatureDto \<Rightarrow> nat \<Rightarrow> nat \<Rightarrow> db \<Rightarrow> (exn + Candidature) \<times> db" where
  "createManual dto createdBy now s =
     (case user_findUnique (cm_candidateId dto) s of
        None \<Rightarrow> (Inl (NotFoundException ''Candidate not found''), s)
      | Some cand \<Rightarrow>
          if u_role cand \<noteq> candidate
          then (Inl (NotFoundException ''Candidate not found''), s)
          else if \<not> List.member (sites s) (cm_siteId dto)
          then (Inl (NotFoundException ''Site not found''), s)
          else if \<not> List.member (departments s) (cm_departmentId dto)
          then (Inl (NotFoundException ''Department not found''), s)
          else if (case cm_previousCandidatureId dto of
                     Defined prevId \<Rightarrow> candidature_findUnique prevId s = None
                   | Undefined \<Rightarrow> False
                   | Null \<Rightarrow> False)
          then (Inl (NotFoundException ''Previous candidature not found''), s)
          else if invalid_psychologue (cm_assignedPsychologueId dto) s
          then (Inl (BadRequestException ''Invalid psychologue ID''), s)
          else
            transaction (\<lambda>tx.
              case jobApplication_create
                     \<lparr>ja_id = 0,
                      ja_candidateId = cm_candidateId dto,
                      ja_siteId = cm_siteId dto,
                      ja_departmentId = cm_departmentId dto,
                      ja_targetPosition =
                        (case cm_positionApplied dto of
                           Defined p \<Rightarrow> if p \<noteq> [] then p else ''Not specified''
                         | Undefined \<Rightarrow> ''Not specified''
                         | Null \<Rightarrow> ''Not specified''),
                      ja_status = approved,
                      ja_reviewedBy = Some createdBy,
                      ja_reviewedAt = Some now\<rparr> tx of
                (Inl e, tx1) \<Rightarrow> (Inl e, tx1)
              | (Inr jobApplication, tx1) \<Rightarrow>
                  candidature_create
                    \<lparr>c_id = 0,
                     c_jobApplicationId = ja_id jobApplication,
                     c_assignedPsychologueId = create_column (cm_assignedPsychologueId dto),
                     c_assignedBy =
                       (if truthy (cm_assignedPsychologueId dto) then Some createdBy else None),
                     c_dpNumber = create_column (cm_dpNumber dto),
                     c_status =
                       (if truthy (cm_assignedPsychologueId dto) then assigned else pending),
                     c_assignedLogicalTestId = None,
                     c_assignedPersonalityTestId = None,
                     c_assignedOptionalLogicalTestId = None,
                     c_assignmentDate = None,
                     c_examDate = None,
                     c_decision = None,
                     c_decisionDate = None,
                     c_decisionBy = None,
                     c_decisionComments = None,
                     c_previousCandidatureId = create_column (cm_previousCandidatureId dto),
                     c_isReevaluation = truthy (cm_previousCandidatureId dto)\<rparr> tx1) s)"

subsection \<open>Update methods\<close>

definition update ::
  "nat \<Rightarrow> UpdateCandidatureDto \<Rightarrow> nat \<Rightarrow> db \<Rightarrow> (exn + Candidature) \<times> db" where
  "update i dto userId s =
     (case candidature_findUnique i s of
        None \<Rightarrow> (Inl (NotFoundException ''Candidature not found''), s)
      | Some candidature \<Rightarrow>
          if invalid_psychologue (ud_assignedPsychologueId dto) s
          then (Inl (BadRequestException ''Invalid psychologue ID''), s)
          else
            candidature_update i (\<lambda>c. c
              \<lparr>c_dpNumber :=
                 (if ud_dpNumber dto \<noteq> Undefined
                  then create_column (ud_dpNumber dto) else c_dpNumber c),
               c_examDate :=
                 (if ud_examDate dto \<noteq> Undefined
                  then (if truthy (ud_examDate dto) then create_column (ud_examDate dto) else None)
                  else c_examDate c),
               c_assignedPsychologueId :=
                 (if ud_assignedPsychologueId dto \<noteq> Undefined
                  then (if truthy (ud_assignedPsychologueId dto)
                        then create_column (ud_assignedPsychologueId dto) else None)
                  else c_assignedPsychologueId c),
               c_assignedBy :=
                 (if ud_assignedPsychologueId dto \<noteq> Undefined
                  then Some userId else c_assignedBy c)\<rparr>) s)"

subsection \<open>Action methods\<close>

text \<open>
  \<open>assignPsychologue\<close>. The acting user is checked with \<open>if (!assignedBy)\<close>, so the
  parameter is optional here: \<open>None\<close> is a missing user id.
\<close>

definition assignPsychologue ::
  "nat \<Rightarrow> AssignPsychologueDto \<Rightarrow> nat option \<Rightarrow> nat \<Rightarrow> db \<Rightarrow> (exn + Candidature) \<times> db" where
  "assignPsychologue i dto assignedByOpt now s =
     (case assignedByOpt of
        None \<Rightarrow> (Inl (BadRequestException ''Current user ID is required''), s)
      | Some assignedBy \<Rightarrow>
          (case candidature_findUnique i s of
             None \<Rightarrow> (Inl (NotFoundException ''Candidature not found''), s)
           | Some candidature \<Rightarrow>
               (case user_findUnique (psychologueId dto) s of
                  None \<Rightarrow> (Inl (BadRequestException ''Invalid psychologue ID''), s)
                | Some psy \<Rightarrow>
                    if u_role psy \<noteq> psychologue
                    then (Inl (BadRequestException ''Invalid psychologue ID''), s)
                    else
                      transaction (\<lambda>tx.
                        case (if c_status candidature = pending
                              then candidatureStateTransition_create
                                     \<lparr>t_id = 0,
                                      t_candidatureId = i,
                                      t_fromStatus = Some (c_status candidature),
                                      t_toStatus = assigned,
                                      t_transitionedBy = assignedBy,
                                      t_transitionedAt = now,
                                      t_reason = Some (''Assigned to '' @ u_firstName psy
                                                         @ '' '' @ u_lastName psy)\<rparr> tx
                              else (Inr (), tx)) of
                          (Inl e, tx1) \<Rightarrow> (Inl e, tx1)
                        | (Inr u, tx1) \<Rightarrow>
                            candidature_update i (\<lambda>c. c
                              \<lparr>c_assignedPsychologueId := Some (psychologueId dto),
                               c_assignedBy := Some assignedBy,
                               c_assignmentDate := Some now,
                               c_status :=
                                 (if c_status candidature = pending
                                  then assigned else c_status candidature)\<rparr>) tx1) s)))"

text \<open>
  \<open>assignTests\<close>. \<open>personalityTestId\<close> stays \<open>undefined\<close> unless an active personality
  test is found; \<open>newStatus\<close> is computed by the source's two equal branches. The
  notification at the end of the source only writes to the application log.
\<close>

definition assignTests ::
  "nat \<Rightarrow> AssignTestsDto \<Rightarrow> nat \<Rightarrow> nat \<Rightarrow> db \<Rightarrow> (exn + Candidature) \<times> db" where
  "assignTests i dto assignedBy now s =
     (case candidature_findUnique i s of
        None \<Rightarrow> (Inl (NotFoundException ''Candidature not found''), s)
      | Some candidature \<Rightarrow>
          if \<not> List.member [pending, assigned] (c_status candidature)
          then (Inl (BadRequestException
                  ''Tests can only be assigned to pending or assigned candidatures''), s)
          else if \<not> List.member (logicalTests s) (at_logicalTestId dto)
          then (Inl (NotFoundException ''Logical test not found''), s)
          else if (case at_optionalLogicalTestId dto of
                     Defined optId \<Rightarrow> \<not> List.member (logicalTests s) optId
                   | Undefined \<Rightarrow> False
                   | Null \<Rightarrow> False)
          then (Inl (NotFoundException ''Optional logical test not found''), s)
          else
            (let personalityTestId =
                   (if at_includePersonalityTest dto \<noteq> Defined False
                    then (case find pt_isActive (personalityTests s) of
                            Some personalityTest \<Rightarrow> Defined (pt_id personalityTest)
                          | None \<Rightarrow> Undefined)
                    else Undefined);
                 newStatus =
                   (if c_assignedPsychologueId candidature \<noteq> None then assigned else assigned)
             in transaction (\<lambda>tx.
                  case (if c_status candidature \<noteq> newStatus
                        then candidatureStateTransition_create
                               \<lparr>t_id = 0,
                                t_candidatureId = i,
                                t_fromStatus = Some (c_status candidature),
                                t_toStatus = newStatus,
                                t_transitionedBy = assignedBy,
                                t_transitionedAt = now,
                                t_reason = Some ''Tests assigned''\<rparr> tx
                        else (Inr (), tx)) of
                    (Inl e, tx1) \<Rightarrow> (Inl e, tx1)
                  | (Inr u, tx1) \<Rightarrow>
                      candidature_update i (\<lambda>c. c
                        \<lparr>c_assignedLogicalTestId := Some (at_logicalTestId dto),
                         c_assignedOptionalLogicalTestId :=
                           update_column (at_optionalLogicalTestId dto)
                             (c_assignedOptionalLogicalTestId c),
                         c_assignedPersonalityTestId :=
                           update_column personalityTestId (c_assignedPersonalityTestId c),
                         c_examDate :=
                           (if truthy (at_examDate dto)
                            then create_column (at_examDate dto)
                            else c_examDate candidature),
                         c_status := newStatus\<rparr>) tx1) s))"

fun show_DecisionType :: "DecisionType \<Rightarrow> string" where
  "show_DecisionType favorable = ''favorable''"
| "show_DecisionType defavorable = ''defavorable''"

definition makeDecision ::
  "nat \<Rightarrow> MakeDecisionDto \<Rightarrow> nat \<Rightarrow> nat \<Rightarrow> db \<Rightarrow> (exn + Candidature) \<times> db" where
  "makeDecision i dto decidedBy now s =
     (case candidature_findUnique i s of
        None \<Rightarrow> (Inl (NotFoundException ''Candidature not found''), s)
      | Some candidature \<Rightarrow>
          if \<not> List.member [completed, in_review] (c_status candidature)
          then (Inl (BadRequestException
                  ''Decision can only be made on completed or in-review candidatures''), s)
          else
            transaction (\<lambda>tx.
              case candidatureStateTransition_create
                     \<lparr>t_id = 0,
                      t_candidatureId = i,
                      t_fromStatus = Some (c_status candidature),
                      t_toStatus = evaluated,
                      t_transitionedBy = decidedBy,
                      t_transitionedAt = now,
                      t_reason = Some (''Decision: '' @ show_DecisionType (md_decision dto)
                        @ (case md_comments dto of
                             Defined cs \<Rightarrow> if cs \<noteq> [] then '' - '' @ cs else []
                           | Undefined \<Rightarrow> []
                           | Null \<Rightarrow> []))\<rparr> tx of
                (Inl e, tx1) \<Rightarrow> (Inl e, tx1)
              | (Inr u, tx1) \<Rightarrow>
                  candidature_update i (\<lambda>c. c
                    \<lparr>c_decision := Some (md_decision dto),
                     c_decisionDate := Some now,
                     c_decisionBy := Some decidedBy,
                     c_decisionComments :=
                       update_column (md_comments dto) (c_decisionComments c),
                     c_status := evaluated\<rparr>) tx1) s)"

definition archive :: "nat \<Rightarrow> nat \<Rightarrow> nat \<Rightarrow> db \<Rightarrow> (exn + Candidature) \<times> db" where
  "archive i archivedBy now s =
     (case candidature_findUnique i s of
        None \<Rightarrow> (Inl (NotFoundException ''Candidature not found''), s)
      | Some candidature \<Rightarrow>
          if c_status candidature \<noteq> evaluated
          then (Inl (BadRequestException ''Only evaluated candidatures can be archived''), s)
          else
            transaction (\<lambda>tx.
              case candidatureStateTransition_create
                     \<lparr>t_id = 0,
                      t_candidatureId = i,
                      t_fromStatus = Some (c_status candidature),
                      t_toStatus = archived,
                      t_transitionedBy = archivedBy,
                      t_transitionedAt = now,
                      t_reason = Some ''Archived''\<rparr> tx of
                (Inl e, tx1) \<Rightarrow> (Inl e, tx1)
              | (Inr u, tx1) \<Rightarrow>
                  candidature_update i (\<lambda>c. c\<lparr>c_status := archived\<rparr>) tx1) s)"

text \<open>The transition log of one candidature, in insertion order.\<close>

definition transitions_of :: "nat \<Rightarrow> db \<Rightarrow> CandidatureStateTransition list" where
  "transitions_of i s = filter (\<lambda>t. t_candidatureId t = i) (candidatureStateTransitions s)"

section \<open>Rows and log entries the operations produce\<close>

text \<open>The log entry written by \<open>archive\<close>.\<close>

definition archived_entry :: "nat \<Rightarrow> nat \<Rightarrow> nat \<Rightarrow> nat \<Rightarrow> CandidatureStateTransition" where
  "archived_entry k i archivedBy now =
     \<lparr>t_id = k, t_candidatureId = i, t_fromStatus = Some evaluated, t_toStatus = archived,
      t_transitionedBy = archivedBy, t_transitionedAt = now, t_reason = Some ''Archived''\<rparr>"

text \<open>The row \<open>create\<close> stores when no psychologue is assigned at once.\<close>

definition pending_candidature :: "CreateCandidatureDto \<Rightarrow> nat \<Rightarrow> Candidature" where
  "pending_candidature dto k =
     \<lparr>c_id = k,
      c_jobApplicationId = cd_jobApplicationId dto,
      c_assignedPsychologueId = None,
      c_assignedBy = None,
      c_dpNumber = create_column (cd_dpNumber dto),
      c_status = pending,
      c_assignedLogicalTestId = None,
      c_assignedPersonalityTestId = None,
      c_assignedOptionalLogicalTestId = None,
      c_assignmentDate = None,
      c_examDate = create_column (cd_examDate dto),
      c_decision = None,
      c_decisionDate = None,
      c_decisionBy = None,
      c_decisionComments = None,
      c_previousCandidatureId = None,
      c_isReevaluation = False\<rparr>"

text \<open>
  A row with the four columns that \<open>update\<close> may write blanked out: two rows agree
  outside those columns exactly when their images are equal.
\<close>

definition outside_update :: "Candidature \<Rightarrow> Candidature" where
  "outside_update c =
     c\<lparr>c_dpNumber := None, c_examDate := None, c_assignedPsychologueId := None,
       c_assignedBy := None\<rparr>"

text \<open>The row after \<open>update\<close>, column by column.\<close>

definition updated_row :: "UpdateCandidatureDto \<Rightarrow> nat \<Rightarrow> Candidature \<Rightarrow> Candidature" where
  "updated_row dto userId c =
     c\<lparr>c_dpNumber :=
         (case ud_dpNumber dto of
            Undefined \<Rightarrow> c_dpNumber c | Null \<Rightarrow> None | Defined v \<Rightarrow> Some v),
       c_examDate :=
         (case ud_examDate dto of
            Undefined \<Rightarrow> c_examDate c | Null \<Rightarrow> None | Defined v \<Rightarrow> Some v),
       c_assignedPsychologueId :=
         (case ud_assignedPsychologueId dto of
            Undefined \<Rightarrow> c_assignedPsychologueId c | Null \<Rightarrow> None | Defined v \<Rightarrow> Some v),
       c_assignedBy :=
         (case ud_assignedPsychologueId dto of
            Undefined \<Rightarrow> c_assignedBy c | Null \<Rightarrow> Some userId | Defined v \<Rightarrow> Some userId)\<rparr>"

text \<open>The log entry written by \<open>create\<close> with an immediate assignment.\<close>

definition initial_assignment_entry :: "nat \<Rightarrow> nat \<Rightarrow> nat \<Rightarrow> nat \<Rightarrow> CandidatureStateTransition" where
  "initial_assignment_entry k i assignedBy now =
     \<lparr>t_id = k, t_candidatureId = i, t_fromStatus = Some pending, t_toStatus = assigned,
      t_transitionedBy = assignedBy, t_transitionedAt = now,
      t_reason = Some ''Initial assignment''\<rparr>"

text \<open>The log entry written by \<open>assignTests\<close> on a pending candidature.\<close>

definition tests_assigned_entry ::
  "nat \<Rightarrow> nat \<Rightarrow> nat \<Rightarrow> nat \<Rightarrow> CandidatureStateTransition" where
  "tests_assigned_entry k i assignedBy now =
     \<lparr>t_id = k, t_candidatureId = i, t_fromStatus = Some pending, t_toStatus = assigned,
      t_transitionedBy = assignedBy, t_transitionedAt = now,
      t_reason = Some ''Tests assigned''\<rparr>"

text \<open>
  The row after \<open>assignTests\<close>; \<open>readExamDate\<close> is the exam date of the row the service
  read before the transaction.
\<close>

definition with_tests ::
  "AssignTestsDto \<Rightarrow> PersonalityTest list \<Rightarrow> nat option \<Rightarrow> Candidature \<Rightarrow> Candidature" where
  "with_tests dto pts readExamDate c =
     c\<lparr>c_assignedLogicalTestId := Some (at_logicalTestId dto),
       c_assignedOptionalLogicalTestId :=
         (case at_optionalLogicalTestId dto of
            Undefined \<Rightarrow> c_assignedOptionalLogicalTestId c
          | Null \<Rightarrow> None
          | Defined t \<Rightarrow> Some t),
       c_assignedPersonalityTestId :=
         (if at_includePersonalityTest dto = Defined False
          then c_assignedPersonalityTestId c
          else case find pt_isActive pts of
                 None \<Rightarrow> c_assignedPersonalityTestId c
               | Some t \<Rightarrow> Some (pt_id t)),
       c_examDate :=
         (case at_examDate dto of
            Undefined \<Rightarrow> readExamDate
          | Null \<Rightarrow> readExamDate
          | Defined d \<Rightarrow> Some d),
       c_status := assigned\<rparr>"

section \<open>Example databases\<close>

definition empty_db :: db where
  "empty_db =
     \<lparr>users = [], sites = [], departments = [], jobApplications = [], candidatures = [],
      candidatureStateTransitions = [], logicalTests = [], personalityTests = [],
      languages = [], logicalTestTranslations = [], logicalQuestionTranslations = [],
      mcqPropositionTranslations = [], scoreClassifications = [], nextId = 100,
      faultAfter = None\<rparr>"

definition ex_fr :: Language where
  "ex_fr = \<lparr>l_code = ''fr'', l_name = ''Francais'', l_isActive = True, l_isDefault = True\<rparr>"

definition ex_en :: Language where
  "ex_en = \<lparr>l_code = ''en'', l_name = ''English'', l_isActive = True, l_isDefault = False\<rparr>"

definition ex_tt :: "string \<Rightarrow> LogicalTestTranslation" where
  "ex_tt lc =
     \<lparr>tt_testId = 1, tt_languageCode = lc, tt_name = ''D-70'', tt_description = None,
      tt_instructions = ''Dominos''\<rparr>"

text \<open>French is the default language; test 1 is translated into French and English.\<close>

definition ex_lang_db :: db where
  "ex_lang_db =
     empty_db\<lparr>languages := [ex_fr, ex_en], logicalTests := [1],
       logicalTestTranslations := [ex_tt ''fr'', ex_tt ''en'']\<rparr>"

text \<open>
  English is the registry's default language; test 1 has a French translation only and
  test 2 an English translation only.
\<close>

definition ex_en_default_db :: db where
  "ex_en_default_db =
     empty_db\<lparr>languages := [ex_en\<lparr>l_isDefault := True\<rparr>, ex_fr\<lparr>l_isDefault := False\<rparr>],
       logicalTests := [1, 2],
       logicalTestTranslations := [ex_tt ''fr'', (ex_tt ''en'')\<lparr>tt_testId := 2\<rparr>]\<rparr>"

text \<open>
  Test 1 with the classifications (1, 0..20) and (2, 21..44) stored; a set whose second
  range overlaps the first, and a valid partition given out of display order.
\<close>

definition ex_item :: "int \<Rightarrow> int \<Rightarrow> int \<Rightarrow> ScoreClassificationItemDto" where
  "ex_item d lo hi =
     \<lparr>displayOrder = d, minScore = lo, maxScore = hi, colorCode = None,
      item_translations = [\<lparr>languageCode = ''fr'', label = ''Niveau'', description = None\<rparr>]\<rparr>"

definition ex_row :: "nat \<Rightarrow> int \<Rightarrow> int \<Rightarrow> int \<Rightarrow> ScoreClassification" where
  "ex_row i d lo hi =
     \<lparr>sc_id = i, sc_testId = 1, sc_displayOrder = d, sc_minScore = lo, sc_maxScore = hi,
      sc_colorCode = None,
      sc_translations = [\<lparr>languageCode = ''fr'', label = ''Niveau'', description = None\<rparr>]\<rparr>"

definition ex_class_db :: db where
  "ex_class_db =
     empty_db\<lparr>languages := [ex_fr, ex_en], logicalTests := [1],
       scoreClassifications := [ex_row 10 1 0 20, ex_row 11 2 21 44]\<rparr>"

definition ex_overlapping :: UpsertClassificationsDto where
  "ex_overlapping = \<lparr>classifications = [ex_item 1 0 20, ex_item 2 15 44]\<rparr>"

definition ex_partition :: UpsertClassificationsDto where
  "ex_partition = \<lparr>classifications = [ex_item 2 11 30, ex_item 1 0 10]\<rparr>"

text \<open>
  Users 1 (admin), 2 (psychologue), 3 (candidate); job application 30 approved without
  candidature, 31 not approved, 32 and 33 approved with the candidatures 40 (evaluated)
  and 41 (pending).
\<close>

definition ex_candidature :: "nat \<Rightarrow> nat \<Rightarrow> CandidatureStatus \<Rightarrow> Candidature" where
  "ex_candidature k appId st =
     \<lparr>c_id = k, c_jobApplicationId = appId, c_assignedPsychologueId = None,
      c_assignedBy = None, c_dpNumber = None, c_status = st,
      c_assignedLogicalTestId = None, c_assignedPersonalityTestId = None,
      c_assignedOptionalLogicalTestId = None, c_assignmentDate = None, c_examDate = None,
      c_decision = None, c_decisionDate = None, c_decisionBy = None,
      c_decisionComments = None, c_previousCandidatureId = None, c_isReevaluation = False\<rparr>"

definition ex_application :: "nat \<Rightarrow> ApplicationStatus \<Rightarrow> JobApplication" where
  "ex_application k st =
     \<lparr>ja_id = k, ja_candidateId = 3, ja_siteId = 10, ja_departmentId = 20,
      ja_targetPosition = ''Operator'', ja_status = st, ja_reviewedBy = None,
      ja_reviewedAt = None\<rparr>"

definition ex_cand_db :: db where
  "ex_cand_db =
     empty_db\<lparr>
       users := [\<lparr>u_id = 1, u_role = admin, u_firstName = ''Ada'', u_lastName = ''Admin''\<rparr>,
                 \<lparr>u_id = 2, u_role = psychologue, u_firstName = ''Paul'', u_lastName = ''Psy''\<rparr>,
                 \<lparr>u_id = 3, u_role = candidate, u_firstName = ''Carl'', u_lastName = ''Cand''\<rparr>],
       sites := [10], departments := [20],
       jobApplications := [ex_application 30 approved, ex_application 31 app_pending,
                           ex_application 32 approved, ex_application 33 approved],
       candidatures := [ex_candidature 40 32 evaluated, ex_candidature 41 33 pending],
       logicalTests := [50, 51],
       personalityTests := [\<lparr>pt_id = 60, pt_isActive = True\<rparr>]\<rparr>"

definition ex_create_assigned :: CreateCandidatureDto where
  "ex_create_assigned =
     \<lparr>cd_jobApplicationId = 30, cd_dpNumber = Defined ''DP-2026-001'',
      cd_assignedPsychologueId = Defined 2, cd_examDate = Undefined\<rparr>"

definition ex_create_pending :: CreateCandidatureDto where
  "ex_create_pending =
     \<lparr>cd_jobApplicationId = 30, cd_dpNumber = Defined ''DP-2026-001'',
      cd_assignedPsychologueId = Undefined, cd_examDate = Undefined\<rparr>"

definition ex_manual :: CreateManualCandidatureDto where
  "ex_manual =
     \<lparr>cm_candidateId = 3, cm_siteId = 10, cm_departmentId = 20,
      cm_positionApplied = Undefined, cm_dpNumber = Undefined,
      cm_assignedPsychologueId = Defined 2, cm_previousCandidatureId = Defined 40\<rparr>"

definition ex_update :: UpdateCandidatureDto where
  "ex_update =
     \<lparr>ud_dpNumber = Defined ''DP-7'', ud_examDate = Null, ud_assignedPsychologueId = Defined 2\<rparr>"

definition ex_assign_tests :: AssignTestsDto where
  "ex_assign_tests =
     \<lparr>at_logicalTestId = 50, at_optionalLogicalTestId = Undefined,
      at_includePersonalityTest = Undefined, at_examDate = Defined 777,
      at_notifyCandidate = Undefined\<rparr>"

section \<open>Verified properties\<close>

subsection \<open>Language resolution\<close>

text \<open>
  Claim C8. \<open>resolveLanguageCode\<close> is a total function of the requested code and the
  registry. It returns the requested code when the registry holds an active language
  with that code, and the result of \<open>getDefaultLanguageCode\<close> otherwise; that result is
  the code of a language flagged as default when the registry has one, and the
  hardcoded \<open>DEFAULT_LANGUAGE_CODE\<close> when it has none.
\<close>

theorem resolveLanguageCode_total:
  "((\<exists>l \<in> set (languages s). l_code l = r \<and> l_isActive l) \<longrightarrow> resolveLanguageCode r s = r)
 \<and> (\<not> (\<exists>l \<in> set (languages s). l_code l = r \<and> l_isActive l) \<longrightarrow>
        resolveLanguageCode r s = getDefaultLanguageCode s)
 \<and> ((\<exists>l \<in> set (languages s). l_isDefault l) \<longrightarrow>
        (\<exists>l \<in> set (languages s). l_isDefault l \<and> getDefaultLanguageCode s = l_code l))
 \<and> (\<not> (\<exists>l \<in> set (languages s). l_isDefault l) \<longrightarrow>
        getDefaultLanguageCode s = DEFAULT_LANGUAGE_CODE)"
proof -
  have a: "resolveLanguageCode r s = r"
    if "\<exists>l \<in> set (languages s). l_code l = r \<and> l_isActive l"
  proof -
    from that have "find (\<lambda>l. l_code l = r \<and> l_isActive l) (languages s) \<noteq> None"
      by (auto simp: find_None_iff)
    then show ?thesis by (auto simp: resolveLanguageCode_def)
  qed
  have b: "resolveLanguageCode r s = getDefaultLanguageCode s"
    if "\<not> (\<exists>l \<in> set (languages s). l_code l = r \<and> l_isActive l)"
  proof -
    from that have "find (\<lambda>l. l_code l = r \<and> l_isActive l) (languages s) = None"
      by (simp add: find_None_iff)
    then show ?thesis by (simp add: resolveLanguageCode_def)
  qed
  have c: "\<exists>l \<in> set (languages s). l_isDefault l \<and> getDefaultLanguageCode s = l_code l"
    if "\<exists>l \<in> set (languages s). l_isDefault l"
  proof -
    from that obtain d where d: "find l_isDefault (languages s) = Some d"
      by (cases "find l_isDefault (languages s)") (auto simp: find_None_iff)
    then have "d \<in> set (languages s)" "l_isDefault d"
      by (auto simp: find_Some_iff)
    with d show ?thesis by (auto simp: getDefaultLanguageCode_def)
  qed
  have d: "getDefaultLanguageCode s = DEFAULT_LANGUAGE_CODE"
    if "\<not> (\<exists>l \<in> set (languages s). l_isDefault l)"
  proof -
    from that have "find l_isDefault (languages s) = None" by (simp add: find_None_iff)
    then show ?thesis by (simp add: getDefaultLanguageCode_def)
  qed
  from a b c d show ?thesis by blast
qed

theorem resolveLanguageCode_total_witness:
  "(\<exists>l \<in> set (languages ex_lang_db). l_code l = ''en'' \<and> l_isActive l)
 \<and> resolveLanguageCode ''en'' ex_lang_db = ''en''
 \<and> \<not> (\<exists>l \<in> set (languages ex_lang_db). l_code l = ''de'' \<and> l_isActive l)
 \<and> resolveLanguageCode ''de'' ex_lang_db = getDefaultLanguageCode ex_lang_db
 \<and> (\<exists>l \<in> set (languages ex_lang_db). l_isDefault l)
 \<and> getDefaultLanguageCode ex_lang_db = ''fr''
 \<and> \<not> (\<exists>l \<in> set (languages empty_db). l_isDefault l)
 \<and> getDefaultLanguageCode empty_db = DEFAULT_LANGUAGE_CODE"
proof -
  have h1: "\<exists>l \<in> set (languages ex_lang_db). l_code l = ''en'' \<and> l_isActive l"
    by (simp add: ex_lang_db_def empty_db_def ex_fr_def ex_en_def)
  have h2: "\<not> (\<exists>l \<in> set (languages ex_lang_db). l_code l = ''de'' \<and> l_isActive l)"
    by (simp add: ex_lang_db_def empty_db_def ex_fr_def ex_en_def)
  have h3: "\<exists>l \<in> set (languages ex_lang_db). l_isDefault l"
    by (simp add: ex_lang_db_def empty_db_def ex_fr_def ex_en_def)
  have h4: "\<not> (\<exists>l \<in> set (languages empty_db). l_isDefault l)"
    by (simp add: empty_db_def)
  have c1: "resolveLanguageCode ''en'' ex_lang_db = ''en''"
    using h1 resolveLanguageCode_total [where s = ex_lang_db and r = "''en''"] by blast
  have c2: "resolveLanguageCode ''de'' ex_lang_db = getDefaultLanguageCode ex_lang_db"
    using h2 resolveLanguageCode_total [where s = ex_lang_db and r = "''de''"] by blast
  have c3: "\<exists>l \<in> set (languages ex_lang_db). l_isDefault l \<and> getDefaultLanguageCode ex_lang_db = l_code l"
    using h3 resolveLanguageCode_total [where s = ex_lang_db and r = "''de''"] by blast
  then have c3': "getDefaultLanguageCode ex_lang_db = ''fr''"
    by (auto simp: ex_lang_db_def empty_db_def ex_fr_def ex_en_def)
  have c4: "getDefaultLanguageCode empty_db = DEFAULT_LANGUAGE_CODE"
    using h4 resolveLanguageCode_total [where s = empty_db and r = "''de''"] by blast
  from h1 h2 h3 h4 c1 c2 c3' c4 show ?thesis by blast
qed

subsection \<open>Translation fallback\<close>

text \<open>
  Claim C7, as amended. \<open>getTestTranslation\<close> never fails for a missing translation.
  It resolves the language, looks up \<open>(testId, resolved)\<close>, and, when that is absent and
  the resolved language differs from the hardcoded \<open>DEFAULT_LANGUAGE_CODE\<close>, performs
  exactly one further lookup, at \<open>(testId, DEFAULT_LANGUAGE_CODE)\<close>. It returns null if
  and only if neither the resolved-language translation nor the
  \<open>DEFAULT_LANGUAGE_CODE\<close> translation exists.
\<close>

theorem getTestTranslation_fallback:
  "(let lang = resolveLanguageCode requestedLang s;
        r = getTestTranslation testId requestedLang s;
        primary = logicalTestTranslation_findUnique testId lang s;
        fallback = logicalTestTranslation_findUnique testId DEFAULT_LANGUAGE_CODE s
    in (fst r = None \<longleftrightarrow> primary = None \<and> fallback = None)
     \<and> (primary \<noteq> None \<longrightarrow> fst r = primary \<and> snd r = [(testId, lang)])
     \<and> (primary = None \<and> lang \<noteq> DEFAULT_LANGUAGE_CODE \<longrightarrow>
          fst r = fallback \<and> snd r = [(testId, lang), (testId, DEFAULT_LANGUAGE_CODE)])
     \<and> (primary = None \<and> lang = DEFAULT_LANGUAGE_CODE \<longrightarrow>
          fst r = None \<and> snd r = [(testId, lang)]))"
  by (auto simp: getTestTranslation_def Let_def)

theorem getTestTranslation_fallback_witness:
  "resolveLanguageCode ''de'' ex_en_default_db = ''en''
 \<and> logicalTestTranslation_findUnique 1 ''en'' ex_en_default_db = None
 \<and> ''en'' \<noteq> DEFAULT_LANGUAGE_CODE
 \<and> fst (getTestTranslation 1 ''de'' ex_en_default_db)
     = logicalTestTranslation_findUnique 1 DEFAULT_LANGUAGE_CODE ex_en_default_db
 \<and> snd (getTestTranslation 1 ''de'' ex_en_default_db)
     = [(1, ''en''), (1, DEFAULT_LANGUAGE_CODE)]"
proof -
  have h1: "resolveLanguageCode ''de'' ex_en_default_db = ''en''"
    by (simp add: resolveLanguageCode_def getDefaultLanguageCode_def ex_en_default_db_def
        empty_db_def ex_fr_def ex_en_def)
  have h2: "logicalTestTranslation_findUnique 1 ''en'' ex_en_default_db = None"
    by (simp add: logicalTestTranslation_findUnique_def ex_en_default_db_def empty_db_def
        ex_tt_def)
  have h3: "''en'' \<noteq> DEFAULT_LANGUAGE_CODE"
    by (simp add: DEFAULT_LANGUAGE_CODE_def)
  from h1 h2 h3
    getTestTranslation_fallback [where s = ex_en_default_db and requestedLang = "''de''"
      and testId = 1]
  show ?thesis by (simp add: Let_def)
qed

text \<open>
  Claim C7 as stated reads "default" as the registry's default language. With English
  as the registry default, a request for the unregistered \<open>de\<close> on test 1 resolves to
  \<open>en\<close>; no \<open>en\<close> translation exists, yet the French one is returned. A request for
  \<open>fr\<close> on test 2 returns null after a single lookup although the translation in the
  registry's default language exists.
\<close>

theorem getTestTranslation_registry_default_counterexample:
  "getDefaultLanguageCode ex_en_default_db = ''en''
 \<and> resolveLanguageCode ''de'' ex_en_default_db = ''en''
 \<and> logicalTestTranslation_findUnique 1 ''en'' ex_en_default_db = None
 \<and> fst (getTestTranslation 1 ''de'' ex_en_default_db) = Some (ex_tt ''fr'')
 \<and> resolveLanguageCode ''fr'' ex_en_default_db = ''fr''
 \<and> logicalTestTranslation_findUnique 2 ''en'' ex_en_default_db \<noteq> None
 \<and> fst (getTestTranslation 2 ''fr'' ex_en_default_db) = None
 \<and> snd (getTestTranslation 2 ''fr'' ex_en_default_db) = [(2, ''fr'')]"
  by (simp add: getTestTranslation_def resolveLanguageCode_def getDefaultLanguageCode_def
      logicalTestTranslation_findUnique_def DEFAULT_LANGUAGE_CODE_def
      ex_en_default_db_def empty_db_def ex_fr_def ex_en_def ex_tt_def)

subsection \<open>Deleting translations\<close>

text \<open>
  Claim C3. The guard of \<open>deleteTestTranslation\<close> only looks at the number of
  translations when the language to delete is the default one. From a test translated
  into French (the default) and English, deleting \<open>fr\<close> succeeds because two
  translations exist, and deleting \<open>en\<close> then succeeds because \<open>en\<close> is not the default:
  the test is left with no translation.
\<close>

theorem deleteTestTranslation_leaves_no_translation:
  "fst (deleteTestTranslation 1 ''fr'' ex_lang_db) = Inr (ex_tt ''fr'')
 \<and> fst (deleteTestTranslation 1 ''en'' (snd (deleteTestTranslation 1 ''fr'' ex_lang_db)))
     = Inr (ex_tt ''en'')
 \<and> translation_count logicalTestTranslation 1
     (snd (deleteTestTranslation 1 ''en'' (snd (deleteTestTranslation 1 ''fr'' ex_lang_db)))) = 0"
  by (simp add: deleteTestTranslation_def ensureNotDeletingDefaultTranslation_def
      translation_count_def getDefaultLanguageCode_def logicalTestTranslation_findUnique_def
      db_write_def ex_lang_db_def empty_db_def ex_fr_def ex_en_def ex_tt_def)

subsection \<open>Score classification ranges\<close>

text \<open>The two validation loops accept exactly the well-formed, strictly increasing lists.\<close>

lemma check_min_max_Inr:
  "check_min_max str cs = Inr u \<longleftrightarrow> (\<forall>c \<in> set cs. minScore c \<le> maxScore c)"
  by (induction cs) auto

lemma check_min_max_Inl:
  "check_min_max str cs = Inl e \<Longrightarrow> \<exists>m. e = BadRequestException m"
  by (induction cs) (auto split: if_splits)

lemma check_overlap_Inr:
  "check_overlap str cs = Inr u \<longleftrightarrow>
     (\<forall>i. Suc i < length cs \<longrightarrow> maxScore (cs ! i) < minScore (cs ! Suc i))"
proof (induction str cs rule: check_overlap.induct)
  case (1 str)
  show ?case by simp
next
  case (2 str c)
  show ?case by simp
next
  case (3 str prev cur rest)
  show ?case
  proof (cases "minScore cur \<le> maxScore prev")
    case True
    then have "\<not> (\<forall>i. Suc i < length (prev # cur # rest) \<longrightarrow>
        maxScore ((prev # cur # rest) ! i) < minScore ((prev # cur # rest) ! Suc i))"
      by (auto intro!: exI [of _ 0])
    with True show ?thesis by simp
  next
    case False
    have "(\<forall>i. Suc i < length (prev # cur # rest) \<longrightarrow>
        maxScore ((prev # cur # rest) ! i) < minScore ((prev # cur # rest) ! Suc i))
      \<longleftrightarrow> (\<forall>i. Suc i < length (cur # rest) \<longrightarrow>
        maxScore ((cur # rest) ! i) < minScore ((cur # rest) ! Suc i))"
      (is "?L \<longleftrightarrow> ?R")
    proof
      assume l: ?L
      show ?R
      proof (intro allI impI)
        fix i assume "Suc i < length (cur # rest)"
        with l [rule_format, of "Suc i"] show "maxScore ((cur # rest) ! i) < minScore ((cur # rest) ! Suc i)"
          by simp
      qed
    next
      assume r: ?R
      show ?L
      proof (intro allI impI)
        fix i assume i: "Suc i < length (prev # cur # rest)"
        show "maxScore ((prev # cur # rest) ! i) < minScore ((prev # cur # rest) ! Suc i)"
        proof (cases i)
          case 0
          with False show ?thesis by simp
        next
          case (Suc j)
          with i r [rule_format, of j] show ?thesis by simp
        qed
      qed
    qed
    with False 3 show ?thesis by simp
  qed
qed

lemma check_overlap_Inl:
  "check_overlap str cs = Inl e \<Longrightarrow> \<exists>m. e = BadRequestException m"
  by (induction str cs rule: check_overlap.induct) (auto split: if_splits)

lemma validateClassificationRanges_Inr:
  "validateClassificationRanges str cs = Inr u \<longleftrightarrow>
     (\<forall>c \<in> set (sort_key displayOrder cs). minScore c \<le> maxScore c)
   \<and> (\<forall>i. Suc i < length (sort_key displayOrder cs) \<longrightarrow>
          maxScore (sort_key displayOrder cs ! i) < minScore (sort_key displayOrder cs ! Suc i))"
proof (cases "check_min_max str (sort_key displayOrder cs)")
  case (Inl e)
  then have "\<not> (\<forall>c \<in> set (sort_key displayOrder cs). minScore c \<le> maxScore c)"
    using check_min_max_Inr [of str "sort_key displayOrder cs" "()"] by simp
  with Inl show ?thesis by (simp add: validateClassificationRanges_def)
next
  case (Inr v)
  then have "\<forall>c \<in> set (sort_key displayOrder cs). minScore c \<le> maxScore c"
    using check_min_max_Inr [of str "sort_key displayOrder cs" v] by simp
  with Inr check_overlap_Inr [of str "sort_key displayOrder cs" u]
  show ?thesis by (simp add: validateClassificationRanges_def)
qed

lemma validateClassificationRanges_Inl:
  "validateClassificationRanges str cs = Inl e \<Longrightarrow> \<exists>m. e = BadRequestException m"
  by (auto simp: validateClassificationRanges_def Let_def split: sum.splits
      dest: check_min_max_Inl check_overlap_Inl)

lemma validateLanguageCodes_Inl:
  "validateLanguageCodes codes s = Inl e \<Longrightarrow> \<exists>m. e = BadRequestException m"
  by (auto simp: validateLanguageCodes_def Let_def split: if_splits)

lemma transaction_Inl: "transaction body s = (Inl e, s') \<Longrightarrow> s' = s"
  by (auto simp: transaction_def split: prod.splits sum.splits)

lemma transaction_Inr: "transaction body s = (Inr r, s') \<Longrightarrow> body s = (Inr r, s')"
  by (auto simp: transaction_def split: prod.splits sum.splits)

lemma scoreClassification_create_Inr:
  assumes "scoreClassification_create t item s = (Inr row, s')"
  shows "scoreClassifications s' = scoreClassifications s @ [row]"
    and "stored_item row = item" and "sc_testId row = t"
    and "\<forall>r \<in> set (scoreClassifications s). sc_testId r = t \<longrightarrow> sc_displayOrder r \<noteq> displayOrder item"
  using assms
  by (auto simp: scoreClassification_create_def db_write_def stored_item_def Let_def list_ex_iff
      split: if_splits option.splits nat.splits)

lemma create_each_Inr:
  "create_each t items s = (Inr u, s') \<Longrightarrow>
     \<exists>rows. scoreClassifications s' = scoreClassifications s @ rows
          \<and> map stored_item rows = items
          \<and> (\<forall>r \<in> set rows. sc_testId r = t)
          \<and> distinct (map displayOrder items)
          \<and> (\<forall>r \<in> set (scoreClassifications s).
                sc_testId r = t \<longrightarrow> sc_displayOrder r \<notin> set (map displayOrder items))"
proof (induction items arbitrary: s)
  case Nil
  then show ?case by simp
next
  case (Cons item items)
  from Cons.prems obtain row s1 where
    c: "scoreClassification_create t item s = (Inr row, s1)" and
    r: "create_each t items s1 = (Inr u, s')"
    by (auto split: prod.splits sum.splits)
  from Cons.IH [OF r] obtain rows where
    rows: "scoreClassifications s' = scoreClassifications s1 @ rows"
      "map stored_item rows = items" "\<forall>r \<in> set rows. sc_testId r = t"
      "distinct (map displayOrder items)"
      "\<forall>r \<in> set (scoreClassifications s1).
          sc_testId r = t \<longrightarrow> sc_displayOrder r \<notin> set (map displayOrder items)"
    by blast
  note cr = scoreClassification_create_Inr [OF c]
  have key: "sc_displayOrder row = displayOrder item"
    using cr(2) by (auto simp: stored_item_def)
  have fresh: "displayOrder item \<notin> set (map displayOrder items)"
    using rows(5) cr(1) cr(3) key by auto
  have old: "\<forall>r \<in> set (scoreClassifications s).
      sc_testId r = t \<longrightarrow> sc_displayOrder r \<notin> set (map displayOrder (item # items))"
    using rows(5) cr(1) cr(4) by auto
  show ?case
    using rows(1-4) cr(1-3) fresh old
    by (intro exI [of _ "row # rows"]) simp
qed

lemma deleteMany_Inr:
  "scoreClassification_deleteMany t s = (Inr u, s') \<Longrightarrow>
     scoreClassifications s' = filter (\<lambda>r. sc_testId r \<noteq> t) (scoreClassifications s)"
  by (auto simp: scoreClassification_deleteMany_def db_write_def
      split: option.splits nat.splits)

lemma upsertClassifications_Inl_unchanged:
  "upsertClassifications str t dto s = (Inl e, s') \<Longrightarrow> s' = s"
  by (auto simp: upsertClassifications_def Let_def split: if_splits sum.splits
      dest: transaction_Inl)

lemma upsertClassifications_Inr:
  assumes "upsertClassifications str t dto s = (Inr u, s')"
  shows "validateClassificationRanges str (classifications dto) = Inr ()"
    and "stored_classifications t s' = classifications dto"
    and "distinct (map displayOrder (classifications dto))"
proof -
  from assms show v: "validateClassificationRanges str (classifications dto) = Inr ()"
    by (auto simp: upsertClassifications_def Let_def split: if_splits sum.splits)
  from assms v obtain s1 where
    d: "scoreClassification_deleteMany t s = (Inr (), s1)" and
    c: "create_each t (classifications dto) s1 = (Inr u, s')"
    by (auto simp: upsertClassifications_def Let_def split: if_splits sum.splits prod.splits
        dest!: transaction_Inr)
  from create_each_Inr [OF c] obtain rows where
    rows: "scoreClassifications s' = scoreClassifications s1 @ rows"
      "map stored_item rows = classifications dto" "\<forall>r \<in> set rows. sc_testId r = t"
      "distinct (map displayOrder (classifications dto))"
    by blast
  from rows(4) show "distinct (map displayOrder (classifications dto))" .
  have "filter (\<lambda>r. sc_testId r = t) (scoreClassifications s') = rows"
    using rows(1,3) deleteMany_Inr [OF d] by (auto simp: filter_id_conv)
  with rows(2) show "stored_classifications t s' = classifications dto"
    by (simp add: stored_classifications_def)
qed

text \<open>
  Claim C2. For a test that exists: when, after sorting the items by \<open>displayOrder\<close>,
  some item has \<open>minScore > maxScore\<close> or some adjacent pair has
  \<open>next.minScore \<le> prev.maxScore\<close>, \<open>upsertClassifications\<close> throws a
  \<open>BadRequestException\<close> and the database is unchanged; every failing call leaves the
  database unchanged; and when the call succeeds, the stored classifications of the test
  are the items of the input and, sorted by \<open>displayOrder\<close>, have \<open>minScore \<le> maxScore\<close>
  each, do not overlap, and carry distinct display orders.
\<close>

theorem upsertClassifications_validates:
  assumes "testId \<in> set (logicalTests s)"
  shows
  "(let S = sort_key displayOrder (classifications dto)
    in (\<exists>c \<in> set S. maxScore c < minScore c)
        \<or> (\<exists>i. Suc i < length S \<and> minScore (S ! Suc i) \<le> maxScore (S ! i))
       \<longrightarrow> (\<exists>m. upsertClassifications str testId dto s = (Inl (BadRequestException m), s)))
 \<and> (\<forall>e s'. upsertClassifications str testId dto s = (Inl e, s') \<longrightarrow> s' = s)
 \<and> (\<forall>u s'. upsertClassifications str testId dto s = (Inr u, s') \<longrightarrow>
       stored_classifications testId s' = classifications dto
     \<and> (let S' = sort_key displayOrder (stored_classifications testId s')
        in (\<forall>c \<in> set S'. minScore c \<le> maxScore c)
         \<and> (\<forall>i. Suc i < length S' \<longrightarrow> maxScore (S' ! i) < minScore (S' ! Suc i))
         \<and> sorted (map displayOrder S') \<and> distinct (map displayOrder S')))"
proof (intro conjI)
  show "let S = sort_key displayOrder (classifications dto)
    in (\<exists>c \<in> set S. maxScore c < minScore c)
        \<or> (\<exists>i. Suc i < length S \<and> minScore (S ! Suc i) \<le> maxScore (S ! i))
       \<longrightarrow> (\<exists>m. upsertClassifications str testId dto s = (Inl (BadRequestException m), s))"
  proof (unfold Let_def, intro impI)
    assume bad: "(\<exists>c \<in> set (sort_key displayOrder (classifications dto)). maxScore c < minScore c)
        \<or> (\<exists>i. Suc i < length (sort_key displayOrder (classifications dto))
             \<and> minScore (sort_key displayOrder (classifications dto) ! Suc i)
                 \<le> maxScore (sort_key displayOrder (classifications dto) ! i))"
    have "validateClassificationRanges str (classifications dto) \<noteq> Inr ()"
      using bad validateClassificationRanges_Inr [of str "classifications dto" "()"]
      by (auto simp: not_le not_less)
    then obtain e where e: "validateClassificationRanges str (classifications dto) = Inl e"
      by (cases "validateClassificationRanges str (classifications dto)") auto
    from validateClassificationRanges_Inl [OF e] obtain m where "e = BadRequestException m" ..
    with e assms show "\<exists>m. upsertClassifications str testId dto s = (Inl (BadRequestException m), s)"
      by (auto simp: upsertClassifications_def)
  qed
next
  show "\<forall>e s'. upsertClassifications str testId dto s = (Inl e, s') \<longrightarrow> s' = s"
    using upsertClassifications_Inl_unchanged by blast
next
  show "\<forall>u s'. upsertClassifications str testId dto s = (Inr u, s') \<longrightarrow>
       stored_classifications testId s' = classifications dto
     \<and> (let S' = sort_key displayOrder (stored_classifications testId s')
        in (\<forall>c \<in> set S'. minScore c \<le> maxScore c)
         \<and> (\<forall>i. Suc i < length S' \<longrightarrow> maxScore (S' ! i) < minScore (S' ! Suc i))
         \<and> sorted (map displayOrder S') \<and> distinct (map displayOrder S'))"
  proof (intro allI impI)
    fix u s' assume ok: "upsertClassifications str testId dto s = (Inr u, s')"
    note r = upsertClassifications_Inr [OF ok]
    have d: "distinct (map displayOrder (sort_key displayOrder (classifications dto)))"
      using r(3) by (simp add: distinct_map)
    from r(1) validateClassificationRanges_Inr [of str "classifications dto" "()"] r(2) d
    show "stored_classifications testId s' = classifications dto
     \<and> (let S' = sort_key displayOrder (stored_classifications testId s')
        in (\<forall>c \<in> set S'. minScore c \<le> maxScore c)
         \<and> (\<forall>i. Suc i < length S' \<longrightarrow> maxScore (S' ! i) < minScore (S' ! Suc i))
         \<and> sorted (map displayOrder S') \<and> distinct (map displayOrder S'))"
      by (simp add: Let_def)
  qed
qed

theorem upsertClassifications_validates_witness:
  "1 \<in> set (logicalTests ex_class_db)
 \<and> minScore (sort_key displayOrder (classifications ex_overlapping) ! Suc 0)
      \<le> maxScore (sort_key displayOrder (classifications ex_overlapping) ! 0)
 \<and> (\<exists>m. upsertClassifications decimal 1 ex_overlapping ex_class_db
           = (Inl (BadRequestException m), ex_class_db))
 \<and> fst (upsertClassifications decimal 1 ex_partition ex_class_db) = Inr ()
 \<and> stored_classifications 1 (snd (upsertClassifications decimal 1 ex_partition ex_class_db))
     = [ex_item 2 11 30, ex_item 1 0 10]
 \<and> sort_key displayOrder
      (stored_classifications 1 (snd (upsertClassifications decimal 1 ex_partition ex_class_db)))
     = [ex_item 1 0 10, ex_item 2 11 30]"
proof -
  have h0: "1 \<in> set (logicalTests ex_class_db)"
    by (simp add: ex_class_db_def empty_db_def ex_fr_def ex_en_def ex_item_def ex_row_def
        ex_overlapping_def ex_partition_def)
  have h1: "minScore (sort_key displayOrder (classifications ex_overlapping) ! Suc 0)
      \<le> maxScore (sort_key displayOrder (classifications ex_overlapping) ! 0)"
    by (simp add: ex_class_db_def empty_db_def ex_fr_def ex_en_def ex_item_def ex_row_def
        ex_overlapping_def ex_partition_def)
  have len: "Suc 0 < length (sort_key displayOrder (classifications ex_overlapping))"
    by (simp add: ex_class_db_def empty_db_def ex_fr_def ex_en_def ex_item_def ex_row_def
        ex_overlapping_def ex_partition_def)
  note T = upsertClassifications_validates [OF h0]
  from T [where str = decimal and dto = ex_overlapping] h1 len
  have c1: "\<exists>m. upsertClassifications decimal 1 ex_overlapping ex_class_db
           = (Inl (BadRequestException m), ex_class_db)"
    unfolding Let_def by blast
  have h2: "fst (upsertClassifications decimal 1 ex_partition ex_class_db) = Inr ()"
    by (simp add: ex_class_db_def empty_db_def ex_fr_def ex_en_def ex_item_def ex_row_def
        ex_overlapping_def ex_partition_def upsertClassifications_def validateClassificationRanges_def
      validateLanguageCodes_def unique_in_order_def transaction_def
      scoreClassification_deleteMany_def scoreClassification_create_def db_write_def Let_def)
  then have h2': "upsertClassifications decimal 1 ex_partition ex_class_db
      = (Inr (), snd (upsertClassifications decimal 1 ex_partition ex_class_db))"
    by (metis prod.collapse)
  from T [where str = decimal and dto = ex_partition] h2'
  have c2: "stored_classifications 1 (snd (upsertClassifications decimal 1 ex_partition ex_class_db))
     = classifications ex_partition"
    by blast
  then have c3: "sort_key displayOrder
      (stored_classifications 1 (snd (upsertClassifications decimal 1 ex_partition ex_class_db)))
     = [ex_item 1 0 10, ex_item 2 11 30]"
    by (simp add: ex_partition_def ex_item_def)
  from h0 h1 c1 h2 c2 c3 show ?thesis by (simp add: ex_partition_def)
qed

subsection \<open>Persistence primitives without faults\<close>

lemma find_append:
  "find P (xs @ ys) = (case find P xs of None \<Rightarrow> find P ys | Some x \<Rightarrow> Some x)"
  by (induction xs) auto

lemma find_map_if:
  assumes "\<And>c. key (f c) = key c"
  shows "find (\<lambda>c. key c = i) (map (\<lambda>c. if key c = i then f c else c) xs)
         = map_option f (find (\<lambda>c. key c = i) xs)"
  using assms by (induction xs) auto

lemma db_write_no_fault:
  "faultAfter s = None \<Longrightarrow> db_write f s = (Inr (fst (f s)), snd (f s))"
  by (simp add: db_write_def split: prod.splits)

lemma db_write_cases:
  "db_write f s = (r, s') \<Longrightarrow>
     (r = Inl PrismaClientError \<and> s' = s)
   \<or> (\<exists>n. r = Inr (fst (f s)) \<and> s' = (snd (f s))\<lparr>faultAfter := n\<rparr>)"
proof (cases "faultAfter s")
  case None
  assume "db_write f s = (r, s')"
  with None have "r = Inr (fst (f s))" "s' = snd (f s)"
    by (auto simp: db_write_def split: prod.splits)
  then have "r = Inr (fst (f s)) \<and> s' = (snd (f s))\<lparr>faultAfter := faultAfter s'\<rparr>"
    by simp
  then show ?thesis by blast
next
  case (Some k)
  assume "db_write f s = (r, s')"
  with Some show ?thesis
    by (cases k) (auto simp: db_write_def split: prod.splits)
qed

lemma candidatureStateTransition_create_no_fault:
  "faultAfter s = None \<Longrightarrow>
     candidatureStateTransition_create data s =
       (Inr (), s\<lparr>candidatureStateTransitions :=
                    candidatureStateTransitions s @ [data\<lparr>t_id := nextId s\<rparr>],
                  nextId := Suc (nextId s)\<rparr>)"
  by (simp add: candidatureStateTransition_create_def db_write_no_fault Let_def)

lemma candidature_update_no_fault:
  "faultAfter s = None \<Longrightarrow> candidature_findUnique i s = Some row \<Longrightarrow>
     candidature_update i f s =
       (Inr (f row), s\<lparr>candidatures := map (\<lambda>c. if c_id c = i then f c else c) (candidatures s)\<rparr>)"
  by (simp add: candidature_update_def db_write_no_fault)

lemma candidature_create_no_fault:
  "faultAfter s = None \<Longrightarrow>
     candidature_create data s =
       (Inr (data\<lparr>c_id := nextId s\<rparr>),
        s\<lparr>candidatures := candidatures s @ [data\<lparr>c_id := nextId s\<rparr>], nextId := Suc (nextId s)\<rparr>)"
  by (simp add: candidature_create_def db_write_no_fault Let_def)

lemma jobApplication_create_no_fault:
  "faultAfter s = None \<Longrightarrow>
     jobApplication_create data s =
       (Inr (data\<lparr>ja_id := nextId s\<rparr>),
        s\<lparr>jobApplications := jobApplications s @ [data\<lparr>ja_id := nextId s\<rparr>],
          nextId := Suc (nextId s)\<rparr>)"
  by (simp add: jobApplication_create_def db_write_no_fault Let_def)

lemma candidature_findUnique_after_update:
  assumes "\<And>c. c_id (f c) = c_id c"
  shows "candidature_findUnique i
           (s\<lparr>candidatures := map (\<lambda>c. if c_id c = i then f c else c) (candidatures s)\<rparr>)
         = map_option f (candidature_findUnique i s)"
  using find_map_if [of c_id f i "candidatures s"] assms
  by (simp add: candidature_findUnique_def)

lemma candidatureStateTransition_create_Inr:
  "candidatureStateTransition_create data s = (Inr u, s1) \<Longrightarrow>
     candidatureStateTransitions s1 = candidatureStateTransitions s @ [data\<lparr>t_id := nextId s\<rparr>]
   \<and> candidatures s1 = candidatures s"
  by (auto simp: candidatureStateTransition_create_def Let_def dest!: db_write_cases)

lemma candidature_update_Inr:
  "candidature_update i f s = (Inr r, s1) \<Longrightarrow>
     candidatureStateTransitions s1 = candidatureStateTransitions s
   \<and> candidatures s1 = map (\<lambda>c. if c_id c = i then f c else c) (candidatures s)"
  by (auto simp: candidature_update_def split: option.splits dest!: db_write_cases)

lemmas ex_cand_defs = ex_cand_db_def empty_db_def ex_candidature_def ex_application_def
  ex_create_assigned_def ex_create_pending_def ex_manual_def ex_update_def
  ex_assign_tests_def

subsection \<open>Archiving\<close>

lemma archive_not_evaluated:
  "candidature_findUnique i s = Some c \<Longrightarrow> c_status c \<noteq> evaluated \<Longrightarrow>
     archive i archivedBy now s =
       (Inl (BadRequestException ''Only evaluated candidatures can be archived''), s)"
  by (simp add: archive_def)

lemma archive_evaluated:
  assumes "candidature_findUnique i s = Some c" "c_status c = evaluated" "faultAfter s = None"
  shows "archive i archivedBy now s =
     (Inr (c\<lparr>c_status := archived\<rparr>),
      s\<lparr>candidatureStateTransitions :=
           candidatureStateTransitions s @ [archived_entry (nextId s) i archivedBy now],
        nextId := Suc (nextId s),
        candidatures :=
          map (\<lambda>r. if c_id r = i then r\<lparr>c_status := archived\<rparr> else r) (candidatures s)\<rparr>)"
  using assms
  by (simp add: archive_def transaction_def candidatureStateTransition_create_no_fault
      candidature_update_no_fault candidature_findUnique_def archived_entry_def)

text \<open>
  Claim C4. For a candidature in status \<open>evaluated\<close> (and a persistence layer that
  does not fail), \<open>archive\<close> succeeds, sets the status of that candidature to
  \<open>archived\<close> and appends exactly one log entry, from \<open>evaluated\<close> to \<open>archived\<close>;
  any further \<open>archive\<close> of it is refused with a \<open>BadRequestException\<close> (the source's
  exception for a violated precondition) and changes nothing. For a candidature in any
  other status, \<open>archive\<close> is refused in the same way and the database is unchanged.
\<close>

theorem archive_only_from_evaluated:
  assumes "candidature_findUnique i s = Some c"
  shows
  "(c_status c = evaluated \<and> faultAfter s = None \<longrightarrow>
      (\<exists>s'. archive i archivedBy now s = (Inr (c\<lparr>c_status := archived\<rparr>), s')
         \<and> candidature_findUnique i s' = Some (c\<lparr>c_status := archived\<rparr>)
         \<and> candidatures s' =
             map (\<lambda>r. if c_id r = i then r\<lparr>c_status := archived\<rparr> else r) (candidatures s)
         \<and> candidatureStateTransitions s' =
             candidatureStateTransitions s @ [archived_entry (nextId s) i archivedBy now]
         \<and> (\<forall>archivedBy' now'. \<exists>m.
               archive i archivedBy' now' s' = (Inl (BadRequestException m), s'))))
 \<and> (c_status c \<noteq> evaluated \<longrightarrow>
      (\<exists>m. archive i archivedBy now s = (Inl (BadRequestException m), s)))"
proof (intro conjI impI)
  assume h: "c_status c = evaluated \<and> faultAfter s = None"
  define s' where "s' = s\<lparr>candidatureStateTransitions :=
           candidatureStateTransitions s @ [archived_entry (nextId s) i archivedBy now],
        nextId := Suc (nextId s),
        candidatures :=
          map (\<lambda>r. if c_id r = i then r\<lparr>c_status := archived\<rparr> else r) (candidatures s)\<rparr>"
  have run: "archive i archivedBy now s = (Inr (c\<lparr>c_status := archived\<rparr>), s')"
    using archive_evaluated [OF assms, of archivedBy now] h by (simp add: s'_def)
  have found: "candidature_findUnique i s' = Some (c\<lparr>c_status := archived\<rparr>)"
    using candidature_findUnique_after_update [of "\<lambda>r. r\<lparr>c_status := archived\<rparr>" i s] assms
    by (simp add: s'_def candidature_findUnique_def)
  have again: "\<forall>archivedBy' now'. \<exists>m.
      archive i archivedBy' now' s' = (Inl (BadRequestException m), s')"
    using archive_not_evaluated [OF found] by auto
  from run found again
  show "\<exists>s'. archive i archivedBy now s = (Inr (c\<lparr>c_status := archived\<rparr>), s')
         \<and> candidature_findUnique i s' = Some (c\<lparr>c_status := archived\<rparr>)
         \<and> candidatures s' =
             map (\<lambda>r. if c_id r = i then r\<lparr>c_status := archived\<rparr> else r) (candidatures s)
         \<and> candidatureStateTransitions s' =
             candidatureStateTransitions s @ [archived_entry (nextId s) i archivedBy now]
         \<and> (\<forall>archivedBy' now'. \<exists>m.
               archive i archivedBy' now' s' = (Inl (BadRequestException m), s'))"
    by (intro exI [of _ s']) (simp add: s'_def)
next
  assume "c_status c \<noteq> evaluated"
  with archive_not_evaluated [OF assms]
  show "\<exists>m. archive i archivedBy now s = (Inl (BadRequestException m), s)" by blast
qed

theorem archive_only_from_evaluated_witness:
  "candidature_findUnique 40 ex_cand_db = Some (ex_candidature 40 32 evaluated)
 \<and> faultAfter ex_cand_db = None
 \<and> (\<exists>s'. archive 40 1 5 ex_cand_db = (Inr (ex_candidature 40 32 archived), s')
        \<and> candidatureStateTransitions s' = [archived_entry 100 40 1 5])
 \<and> candidature_findUnique 41 ex_cand_db = Some (ex_candidature 41 33 pending)
 \<and> (\<exists>m. archive 41 1 5 ex_cand_db = (Inl (BadRequestException m), ex_cand_db))"
proof -
  have h1: "candidature_findUnique 40 ex_cand_db = Some (ex_candidature 40 32 evaluated)"
    by (simp add: candidature_findUnique_def ex_cand_defs)
  have h2: "c_status (ex_candidature 40 32 evaluated) = evaluated \<and> faultAfter ex_cand_db = None"
    by (simp add: ex_cand_defs)
  have h3: "candidature_findUnique 41 ex_cand_db = Some (ex_candidature 41 33 pending)"
    by (simp add: candidature_findUnique_def ex_cand_defs)
  have h4: "c_status (ex_candidature 41 33 pending) \<noteq> evaluated"
    by (simp add: ex_cand_defs)
  from archive_only_from_evaluated [OF h1, of 1 5] h2
  obtain s' where "archive 40 1 5 ex_cand_db
        = (Inr ((ex_candidature 40 32 evaluated)\<lparr>c_status := archived\<rparr>), s')"
    "candidatureStateTransitions s' =
       candidatureStateTransitions ex_cand_db @ [archived_entry (nextId ex_cand_db) 40 1 5]"
    by blast
  then have c1: "\<exists>s'. archive 40 1 5 ex_cand_db = (Inr (ex_candidature 40 32 archived), s')
        \<and> candidatureStateTransitions s' = [archived_entry 100 40 1 5]"
    by (auto simp: ex_cand_defs)
  from archive_only_from_evaluated [OF h3, of 1 5] h4
  have c2: "\<exists>m. archive 41 1 5 ex_cand_db = (Inl (BadRequestException m), ex_cand_db)"
    by blast
  from h1 h2 c1 h3 c2 show ?thesis by blast
qed

subsection \<open>Creating a candidature from a job application\<close>

lemma create_not_approved:
  "jobApplication_findUnique (cd_jobApplicationId dto) s = Some ja \<Longrightarrow> ja_status ja \<noteq> approved \<Longrightarrow>
     create dto assignedBy now s =
       (Inl (BadRequestException
          ''Job application must be approved before creating candidature''), s)"
  by (simp add: create_def)

lemma create_conflict:
  "jobApplication_findUnique (cd_jobApplicationId dto) s = Some ja \<Longrightarrow> ja_status ja = approved \<Longrightarrow>
   jobApplication_candidature (ja_id ja) s \<noteq> None \<Longrightarrow>
     create dto assignedBy now s =
       (Inl (ConflictException ''Job application already has a candidature''), s)"
  by (simp add: create_def)

lemma jobApplication_findUnique_id:
  "jobApplication_findUnique k s = Some ja \<Longrightarrow> ja_id ja = k"
  by (auto simp: jobApplication_findUnique_def find_Some_iff)

lemma falsy_cases: "\<not> truthy x \<Longrightarrow> x = Undefined \<or> x = Null"
  by (cases x) auto

lemma create_pending:
  assumes "jobApplication_findUnique (cd_jobApplicationId dto) s = Some ja"
    "ja_status ja = approved" "jobApplication_candidature (ja_id ja) s = None"
    "\<not> truthy (cd_assignedPsychologueId dto)" "faultAfter s = None"
  shows "create dto assignedBy now s =
     (Inr (pending_candidature dto (nextId s)),
      s\<lparr>candidatures := candidatures s @ [pending_candidature dto (nextId s)],
        nextId := Suc (nextId s)\<rparr>)"
proof -
  from assms(4) have "cd_assignedPsychologueId dto = Undefined \<or> cd_assignedPsychologueId dto = Null"
    by (rule falsy_cases)
  then show ?thesis
    using assms(1,2,3,5)
    by (cases "cd_examDate dto")
      (auto simp: create_def candidature_create_no_fault pending_candidature_def)
qed

text \<open>
  Claim C5. For an approved job application without candidature, \<open>create\<close> without
  an immediate psychologue adds exactly one candidature, in status \<open>pending\<close>, and
  nothing else; any later \<open>create\<close> for the same job application is refused with a
  \<open>ConflictException\<close> and changes nothing. For a job application that is not approved,
  \<open>create\<close> is refused with a \<open>BadRequestException\<close> and the database is unchanged.
\<close>

theorem create_from_approved_application:
  assumes "jobApplication_findUnique (cd_jobApplicationId dto) s = Some ja"
  shows
  "(ja_status ja = approved \<and> jobApplication_candidature (ja_id ja) s = None
      \<and> \<not> truthy (cd_assignedPsychologueId dto) \<and> faultAfter s = None \<longrightarrow>
      (\<exists>c s'. create dto assignedBy now s = (Inr c, s')
         \<and> c_status c = pending \<and> c_jobApplicationId c = ja_id ja
         \<and> s' = s\<lparr>candidatures := candidatures s @ [c], nextId := Suc (nextId s)\<rparr>
         \<and> (\<forall>dto' assignedBy' now'. cd_jobApplicationId dto' = cd_jobApplicationId dto \<longrightarrow>
               (\<exists>m. create dto' assignedBy' now' s' = (Inl (ConflictException m), s')))))
 \<and> (ja_status ja \<noteq> approved \<longrightarrow>
      (\<exists>m. create dto assignedBy now s = (Inl (BadRequestException m), s)))"
proof (intro conjI impI)
  assume h: "ja_status ja = approved \<and> jobApplication_candidature (ja_id ja) s = None
      \<and> \<not> truthy (cd_assignedPsychologueId dto) \<and> faultAfter s = None"
  define c where "c = pending_candidature dto (nextId s)"
  define s' where "s' = s\<lparr>candidatures := candidatures s @ [c], nextId := Suc (nextId s)\<rparr>"
  have run: "create dto assignedBy now s = (Inr c, s')"
    using create_pending [OF assms, of assignedBy now] h by (simp add: c_def s'_def)
  have k: "ja_id ja = cd_jobApplicationId dto"
    using assms by (rule jobApplication_findUnique_id)
  have again: "\<exists>m. create dto' assignedBy' now' s' = (Inl (ConflictException m), s')"
    if "cd_jobApplicationId dto' = cd_jobApplicationId dto" for dto' assignedBy' now'
  proof -
    have f: "jobApplication_findUnique (cd_jobApplicationId dto') s' = Some ja"
      using assms that by (simp add: s'_def jobApplication_findUnique_def)
    have "jobApplication_candidature (ja_id ja) s' \<noteq> None"
      by (simp add: s'_def jobApplication_candidature_def find_append c_def
          pending_candidature_def k split: option.splits)
    with create_conflict [OF f] h show ?thesis by blast
  qed
  show "\<exists>c s'. create dto assignedBy now s = (Inr c, s')
         \<and> c_status c = pending \<and> c_jobApplicationId c = ja_id ja
         \<and> s' = s\<lparr>candidatures := candidatures s @ [c], nextId := Suc (nextId s)\<rparr>
         \<and> (\<forall>dto' assignedBy' now'. cd_jobApplicationId dto' = cd_jobApplicationId dto \<longrightarrow>
               (\<exists>m. create dto' assignedBy' now' s' = (Inl (ConflictException m), s')))"
  proof (intro exI [of _ c] exI [of _ s'] conjI)
    show "create dto assignedBy now s = (Inr c, s')" by (rule run)
    show "c_status c = pending" by (simp add: c_def pending_candidature_def)
    show "c_jobApplicationId c = ja_id ja" by (simp add: c_def pending_candidature_def k)
    show "s' = s\<lparr>candidatures := candidatures s @ [c], nextId := Suc (nextId s)\<rparr>"
      by (simp add: s'_def)
    show "\<forall>dto' assignedBy' now'. cd_jobApplicationId dto' = cd_jobApplicationId dto \<longrightarrow>
               (\<exists>m. create dto' assignedBy' now' s' = (Inl (ConflictException m), s'))"
      using again by blast
  qed
next
  assume "ja_status ja \<noteq> approved"
  with create_not_approved [OF assms]
  show "\<exists>m. create dto assignedBy now s = (Inl (BadRequestException m), s)" by blast
qed

theorem create_from_approved_application_witness:
  "jobApplication_findUnique 30 ex_cand_db = Some (ex_application 30 approved)
 \<and> jobApplication_candidature 30 ex_cand_db = None
 \<and> (\<exists>c s'. create ex_create_pending 1 5 ex_cand_db = (Inr c, s') \<and> c_status c = pending
        \<and> candidatures s' = candidatures ex_cand_db @ [c]
        \<and> (\<exists>m. create ex_create_assigned 1 6 s' = (Inl (ConflictException m), s')))
 \<and> jobApplication_findUnique 31 ex_cand_db = Some (ex_application 31 app_pending)
 \<and> (\<exists>m. create (ex_create_pending\<lparr>cd_jobApplicationId := 31\<rparr>) 1 5 ex_cand_db
           = (Inl (BadRequestException m), ex_cand_db))"
proof -
  have h1: "jobApplication_findUnique (cd_jobApplicationId ex_create_pending) ex_cand_db
      = Some (ex_application 30 approved)"
    by (simp add: jobApplication_findUnique_def ex_cand_defs)
  have h2: "ja_status (ex_application 30 approved) = approved
      \<and> jobApplication_candidature (ja_id (ex_application 30 approved)) ex_cand_db = None
      \<and> \<not> truthy (cd_assignedPsychologueId ex_create_pending)
      \<and> faultAfter ex_cand_db = None"
    by (simp add: jobApplication_candidature_def ex_cand_defs)
  have h3: "jobApplication_findUnique
        (cd_jobApplicationId (ex_create_pending\<lparr>cd_jobApplicationId := 31\<rparr>)) ex_cand_db
      = Some (ex_application 31 app_pending)"
    by (simp add: jobApplication_findUnique_def ex_cand_defs)
  have h4: "ja_status (ex_application 31 app_pending) \<noteq> approved"
    by (simp add: ex_cand_defs)
  have same: "cd_jobApplicationId ex_create_assigned = cd_jobApplicationId ex_create_pending"
    by (simp add: ex_cand_defs)
  from create_from_approved_application [OF h1, of 1 5] h2
  obtain c s' where r: "create ex_create_pending 1 5 ex_cand_db = (Inr c, s')"
    "c_status c = pending"
    "s' = ex_cand_db\<lparr>candidatures := candidatures ex_cand_db @ [c],
                     nextId := Suc (nextId ex_cand_db)\<rparr>"
    "\<forall>dto' assignedBy' now'.
        cd_jobApplicationId dto' = cd_jobApplicationId ex_create_pending \<longrightarrow>
        (\<exists>m. create dto' assignedBy' now' s' = (Inl (ConflictException m), s'))"
    by blast
  from r(4) same have "\<exists>m. create ex_create_assigned 1 6 s' = (Inl (ConflictException m), s')"
    by blast
  moreover from r(3) have "candidatures s' = candidatures ex_cand_db @ [c]"
    by simp
  ultimately have c1: "\<exists>c s'. create ex_create_pending 1 5 ex_cand_db = (Inr c, s')
        \<and> c_status c = pending
        \<and> candidatures s' = candidatures ex_cand_db @ [c]
        \<and> (\<exists>m. create ex_create_assigned 1 6 s' = (Inl (ConflictException m), s'))"
    using r(1,2) by blast
  from create_from_approved_application [OF h3, of 1 5] h4
  have c2: "\<exists>m. create (ex_create_pending\<lparr>cd_jobApplicationId := 31\<rparr>) 1 5 ex_cand_db
           = (Inl (BadRequestException m), ex_cand_db)"
    by blast
  from h1 h2 h3 c1 c2 show ?thesis by (simp add: ex_cand_defs)
qed

subsection \<open>Manual creation\<close>

lemma createManual_assigned:
  assumes "user_findUnique (cm_candidateId dto) s = Some u" "u_role u = candidate"
    "cm_siteId dto \<in> set (sites s)" "cm_departmentId dto \<in> set (departments s)"
    "\<forall>prevId. cm_previousCandidatureId dto = Defined prevId \<longrightarrow>
       candidature_findUnique prevId s \<noteq> None"
    "cm_assignedPsychologueId dto = Defined pid"
    "user_findUnique pid s = Some p" "u_role p = psychologue" "faultAfter s = None"
  shows "\<exists>c s'. createManual dto createdBy now s = (Inr c, s')
      \<and> c_id c = Suc (nextId s) \<and> c_status c = assigned
      \<and> c_assignedPsychologueId c = Some pid \<and> c_assignedBy c = Some createdBy
      \<and> c_assignmentDate c = None
      \<and> candidatures s' = candidatures s @ [c]
      \<and> candidatureStateTransitions s' = candidatureStateTransitions s"
  using assms
  by (cases "cm_previousCandidatureId dto")
    (auto simp: createManual_def transaction_def jobApplication_create_no_fault
      candidature_create_no_fault)

lemma create_assigned:
  assumes "jobApplication_findUnique (cd_jobApplicationId dto) s = Some ja"
    "ja_status ja = approved" "jobApplication_candidature (ja_id ja) s = None"
    "cd_assignedPsychologueId dto = Defined pid"
    "user_findUnique pid s = Some p" "u_role p = psychologue" "faultAfter s = None"
  shows "\<exists>c s'. create dto assignedBy now s = (Inr c, s')
      \<and> c_id c = nextId s \<and> c_status c = assigned
      \<and> candidatures s' = candidatures s @ [c]
      \<and> candidatureStateTransitions s' =
          candidatureStateTransitions s
            @ [initial_assignment_entry (Suc (nextId s)) (c_id c) assignedBy now]"
  using assms
  by (auto simp: create_def candidature_create_no_fault
      candidatureStateTransition_create_no_fault initial_assignment_entry_def)

text \<open>
  Claim C9, as amended. When every reference check passes and the input names a
  psychologue, \<open>createManual\<close> creates the candidature directly in status \<open>assigned\<close>,
  with \<open>assignedPsychologueId\<close> and \<open>assignedBy\<close> set and \<open>assignmentDate\<close> left
  unset, and writes no transition log entry: the log table is unchanged, and the log of
  the new candidature is empty (its key being fresh). By contrast, \<open>create\<close> with an
  immediate psychologue appends the entry from \<open>pending\<close> to \<open>assigned\<close>.
\<close>

theorem createManual_assigned_without_log:
  assumes "faultAfter s = None"
  shows
  "(user_findUnique (cm_candidateId dto) s = Some u \<and> u_role u = candidate
      \<and> cm_siteId dto \<in> set (sites s) \<and> cm_departmentId dto \<in> set (departments s)
      \<and> (\<forall>prevId. cm_previousCandidatureId dto = Defined prevId \<longrightarrow>
            candidature_findUnique prevId s \<noteq> None)
      \<and> cm_assignedPsychologueId dto = Defined pid
      \<and> user_findUnique pid s = Some p \<and> u_role p = psychologue \<longrightarrow>
      (\<exists>c s'. createManual dto createdBy now s = (Inr c, s')
         \<and> c_status c = assigned
         \<and> c_assignedPsychologueId c = Some pid \<and> c_assignedBy c = Some createdBy
         \<and> c_assignmentDate c = None
         \<and> candidatures s' = candidatures s @ [c]
         \<and> candidatureStateTransitions s' = candidatureStateTransitions s
         \<and> ((\<forall>t \<in> set (candidatureStateTransitions s). t_candidatureId t < nextId s) \<longrightarrow>
               transitions_of (c_id c) s' = [])))
 \<and> (jobApplication_findUnique (cd_jobApplicationId dto') s = Some ja
      \<and> ja_status ja = approved \<and> jobApplication_candidature (ja_id ja) s = None
      \<and> cd_assignedPsychologueId dto' = Defined pid
      \<and> user_findUnique pid s = Some p \<and> u_role p = psychologue \<longrightarrow>
      (\<exists>c s'. create dto' createdBy now s = (Inr c, s')
         \<and> c_status c = assigned
         \<and> candidatures s' = candidatures s @ [c]
         \<and> candidatureStateTransitions s' =
             candidatureStateTransitions s
               @ [initial_assignment_entry (Suc (nextId s)) (c_id c) createdBy now]))"
proof (rule conjI; intro impI)
  assume h: "user_findUnique (cm_candidateId dto) s = Some u \<and> u_role u = candidate
      \<and> cm_siteId dto \<in> set (sites s) \<and> cm_departmentId dto \<in> set (departments s)
      \<and> (\<forall>prevId. cm_previousCandidatureId dto = Defined prevId \<longrightarrow>
            candidature_findUnique prevId s \<noteq> None)
      \<and> cm_assignedPsychologueId dto = Defined pid
      \<and> user_findUnique pid s = Some p \<and> u_role p = psychologue"
  with assms createManual_assigned [of dto s u pid p createdBy now]
  obtain c s' where r: "createManual dto createdBy now s = (Inr c, s')"
      "c_id c = Suc (nextId s)" "c_status c = assigned"
      "c_assignedPsychologueId c = Some pid" "c_assignedBy c = Some createdBy"
      "candidatures s' = candidatures s @ [c]"
      "candidatureStateTransitions s' = candidatureStateTransitions s"
      "c_assignmentDate c = None"
    by blast
  have "transitions_of (c_id c) s' = []"
    if "\<forall>t \<in> set (candidatureStateTransitions s). t_candidatureId t < nextId s"
    using that r(2,7) by (auto simp: transitions_of_def filter_empty_conv)
  with r show "\<exists>c s'. createManual dto createdBy now s = (Inr c, s')
         \<and> c_status c = assigned
         \<and> c_assignedPsychologueId c = Some pid \<and> c_assignedBy c = Some createdBy
         \<and> c_assignmentDate c = None
         \<and> candidatures s' = candidatures s @ [c]
         \<and> candidatureStateTransitions s' = candidatureStateTransitions s
         \<and> ((\<forall>t \<in> set (candidatureStateTransitions s). t_candidatureId t < nextId s) \<longrightarrow>
               transitions_of (c_id c) s' = [])"
    by blast
next
  assume h: "jobApplication_findUnique (cd_jobApplicationId dto') s = Some ja
      \<and> ja_status ja = approved \<and> jobApplication_candidature (ja_id ja) s = None
      \<and> cd_assignedPsychologueId dto' = Defined pid
      \<and> user_findUnique pid s = Some p \<and> u_role p = psychologue"
  with assms create_assigned [of dto' s ja pid p createdBy now]
  obtain c s' where r: "create dto' createdBy now s = (Inr c, s')"
      "c_status c = assigned" "candidatures s' = candidatures s @ [c]"
      "candidatureStateTransitions s' =
          candidatureStateTransitions s
            @ [initial_assignment_entry (Suc (nextId s)) (c_id c) createdBy now]"
    by auto
  show "\<exists>c s'. create dto' createdBy now s = (Inr c, s')
         \<and> c_status c = assigned
         \<and> candidatures s' = candidatures s @ [c]
         \<and> candidatureStateTransitions s' =
             candidatureStateTransitions s
               @ [initial_assignment_entry (Suc (nextId s)) (c_id c) createdBy now]"
    using r by (intro exI [of _ c] exI [of _ s']) simp
qed

theorem createManual_assigned_without_log_witness:
  "faultAfter ex_cand_db = None
 \<and> user_findUnique 3 ex_cand_db
     = Some \<lparr>u_id = 3, u_role = candidate, u_firstName = ''Carl'', u_lastName = ''Cand''\<rparr>
 \<and> user_findUnique 2 ex_cand_db
     = Some \<lparr>u_id = 2, u_role = psychologue, u_firstName = ''Paul'', u_lastName = ''Psy''\<rparr>
 \<and> (\<exists>c s'. createManual ex_manual 1 5 ex_cand_db = (Inr c, s')
        \<and> c_status c = assigned \<and> c_assignedPsychologueId c = Some 2
        \<and> c_assignedBy c = Some 1 \<and> c_assignmentDate c = None
        \<and> candidatureStateTransitions s' = []
        \<and> transitions_of (c_id c) s' = [])
 \<and> (\<exists>c s'. create ex_create_assigned 1 5 ex_cand_db = (Inr c, s')
        \<and> c_status c = assigned
        \<and> candidatureStateTransitions s' = [initial_assignment_entry 101 (c_id c) 1 5])"
proof -
  let ?u = "\<lparr>u_id = 3, u_role = candidate, u_firstName = ''Carl'', u_lastName = ''Cand''\<rparr>"
  let ?p = "\<lparr>u_id = 2, u_role = psychologue, u_firstName = ''Paul'', u_lastName = ''Psy''\<rparr>"
  have h0: "faultAfter ex_cand_db = None"
    by (simp add: ex_cand_defs)
  have hu: "user_findUnique 3 ex_cand_db = Some ?u" and hp: "user_findUnique 2 ex_cand_db = Some ?p"
    by (simp_all add: user_findUnique_def ex_cand_defs)
  have h1: "user_findUnique (cm_candidateId ex_manual) ex_cand_db = Some ?u
      \<and> u_role ?u = candidate
      \<and> cm_siteId ex_manual \<in> set (sites ex_cand_db)
      \<and> cm_departmentId ex_manual \<in> set (departments ex_cand_db)
      \<and> (\<forall>prevId. cm_previousCandidatureId ex_manual = Defined prevId \<longrightarrow>
            candidature_findUnique prevId ex_cand_db \<noteq> None)
      \<and> cm_assignedPsychologueId ex_manual = Defined 2
      \<and> user_findUnique 2 ex_cand_db = Some ?p \<and> u_role ?p = psychologue"
    by (simp add: user_findUnique_def candidature_findUnique_def ex_cand_defs)
  have h2: "jobApplication_findUnique (cd_jobApplicationId ex_create_assigned) ex_cand_db
        = Some (ex_application 30 approved)
      \<and> ja_status (ex_application 30 approved) = approved
      \<and> jobApplication_candidature (ja_id (ex_application 30 approved)) ex_cand_db = None
      \<and> cd_assignedPsychologueId ex_create_assigned = Defined 2
      \<and> user_findUnique 2 ex_cand_db = Some ?p \<and> u_role ?p = psychologue"
    by (simp add: user_findUnique_def jobApplication_findUnique_def
        jobApplication_candidature_def ex_cand_defs)
  have h3: "\<forall>t \<in> set (candidatureStateTransitions ex_cand_db). t_candidatureId t < nextId ex_cand_db"
    by (simp add: ex_cand_defs)
  note T = createManual_assigned_without_log [OF h0, of ex_manual ?u 2 ?p 1 5
      ex_create_assigned "ex_application 30 approved"]
  from T h1 h3 obtain c s' where "createManual ex_manual 1 5 ex_cand_db = (Inr c, s')"
    "c_status c = assigned" "c_assignedPsychologueId c = Some 2" "c_assignedBy c = Some 1"
    "c_assignmentDate c = None"
    "candidatureStateTransitions s' = candidatureStateTransitions ex_cand_db"
    "transitions_of (c_id c) s' = []"
    by auto
  then have c1: "\<exists>c s'. createManual ex_manual 1 5 ex_cand_db = (Inr c, s')
        \<and> c_status c = assigned \<and> c_assignedPsychologueId c = Some 2
        \<and> c_assignedBy c = Some 1 \<and> c_assignmentDate c = None
        \<and> candidatureStateTransitions s' = []
        \<and> transitions_of (c_id c) s' = []"
    by (auto simp: ex_cand_defs)
  from T h2 obtain c s' where "create ex_create_assigned 1 5 ex_cand_db = (Inr c, s')"
    "c_status c = assigned"
    "candidatureStateTransitions s' =
       candidatureStateTransitions ex_cand_db
         @ [initial_assignment_entry (Suc (nextId ex_cand_db)) (c_id c) 1 5]"
    by auto
  then have c2: "\<exists>c s'. create ex_create_assigned 1 5 ex_cand_db = (Inr c, s')
        \<and> c_status c = assigned
        \<and> candidatureStateTransitions s' = [initial_assignment_entry 101 (c_id c) 1 5]"
    by (auto simp: ex_cand_defs)
  from h0 hu hp c1 c2 show ?thesis by blast
qed

text \<open>
  Claim C9 as stated has the candidature created with the assignment metadata set, and
  the data model counts \<open>assignmentDate\<close> among them. \<open>createManual\<close> does not write
  that column: the row it stores for a request that names psychologue 2 has the
  psychologue and the assigner set and the assignment date NULL.
\<close>

theorem createManual_assignmentDate_counterexample:
  "fst (createManual ex_manual 1 5 ex_cand_db)
     = Inr ((ex_candidature 101 100 assigned)
              \<lparr>c_assignedPsychologueId := Some 2, c_assignedBy := Some 1,
                c_previousCandidatureId := Some 40, c_isReevaluation := True\<rparr>)
 \<and> c_assignmentDate
       ((ex_candidature 101 100 assigned)
          \<lparr>c_assignedPsychologueId := Some 2, c_assignedBy := Some 1,
            c_previousCandidatureId := Some 40, c_isReevaluation := True\<rparr>) = None"
  by (simp add: createManual_def user_findUnique_def candidature_findUnique_def
      transaction_def jobApplication_create_def candidature_create_def db_write_def Let_def
      ex_cand_defs)

subsection \<open>Field updates\<close>

lemma candidature_update_frame:
  assumes "candidature_update i f s = (r, s')"
    and "\<And>c. c_status (f c) = c_status c" and "\<And>c. outside_update (f c) = outside_update c"
  shows "candidatureStateTransitions s' = candidatureStateTransitions s"
    and "map c_status (candidatures s') = map c_status (candidatures s)"
    and "map outside_update (candidatures s') = map outside_update (candidatures s)"
    and "s'\<lparr>candidatures := candidatures s, faultAfter := faultAfter s\<rparr> = s"
proof -
  have "s' = s \<or> (\<exists>n. s' = s\<lparr>candidatures :=
      map (\<lambda>c. if c_id c = i then f c else c) (candidatures s), faultAfter := n\<rparr>)"
    using assms(1)
    by (auto simp: candidature_update_def split: option.splits dest!: db_write_cases)
  then show "candidatureStateTransitions s' = candidatureStateTransitions s"
    and "map c_status (candidatures s') = map c_status (candidatures s)"
    and "map outside_update (candidatures s') = map outside_update (candidatures s)"
    and "s'\<lparr>candidatures := candidatures s, faultAfter := faultAfter s\<rparr> = s"
    using assms(2,3) by (auto simp: comp_def)
qed

lemma update_fun_frame:
  "c_status (c\<lparr>c_dpNumber := a, c_examDate := b, c_assignedPsychologueId := d, c_assignedBy := e\<rparr>)
     = c_status c"
  "outside_update (c\<lparr>c_dpNumber := a, c_examDate := b, c_assignedPsychologueId := d, c_assignedBy := e\<rparr>)
     = outside_update c"
  by (simp_all add: outside_update_def)

lemma update_unchanged_on_error:
  "update i dto userId s = (Inl e, s') \<Longrightarrow> s' = s"
  by (auto simp: update_def candidature_update_def split: option.splits if_splits
      dest!: db_write_cases)

text \<open>
  Claim C10. Whatever its input and outcome, \<open>update\<close> leaves the transition log and
  the status of every candidature as they were, changes no candidature outside the
  columns \<open>dpNumber\<close>, \<open>examDate\<close>, \<open>assignedPsychologueId\<close> and \<open>assignedBy\<close>, and
  changes no other table. For an existing candidature, a valid (or absent) psychologue
  and a persistence layer that does not fail, it succeeds and returns the row with
  those columns set from the input, the status being the one it had (so a pending
  candidature that receives a psychologue stays pending).
\<close>

theorem update_frame:
  "(\<forall>r s'. update i dto userId s = (r, s') \<longrightarrow>
      candidatureStateTransitions s' = candidatureStateTransitions s
    \<and> map c_status (candidatures s') = map c_status (candidatures s)
    \<and> map outside_update (candidatures s') = map outside_update (candidatures s)
    \<and> s'\<lparr>candidatures := candidatures s, faultAfter := faultAfter s\<rparr> = s)
 \<and> (\<forall>c. candidature_findUnique i s = Some c
        \<and> \<not> invalid_psychologue (ud_assignedPsychologueId dto) s \<and> faultAfter s = None \<longrightarrow>
      update i dto userId s =
        (Inr (updated_row dto userId c),
         s\<lparr>candidatures :=
             map (\<lambda>r. if c_id r = i then updated_row dto userId r else r) (candidatures s)\<rparr>)
      \<and> c_status (updated_row dto userId c) = c_status c
      \<and> outside_update (updated_row dto userId c) = outside_update c)"
proof (rule conjI; intro allI impI)
  fix r s' assume run: "update i dto userId s = (r, s')"
  show "candidatureStateTransitions s' = candidatureStateTransitions s
    \<and> map c_status (candidatures s') = map c_status (candidatures s)
    \<and> map outside_update (candidatures s') = map outside_update (candidatures s)
    \<and> s'\<lparr>candidatures := candidatures s, faultAfter := faultAfter s\<rparr> = s"
  proof (cases "s' = s")
    case True
    then show ?thesis by simp
  next
    case False
    with run obtain f where
      u: "candidature_update i f s = (r, s')" and
      f: "\<And>c. c_status (f c) = c_status c" "\<And>c. outside_update (f c) = outside_update c"
      by (auto simp: update_def update_fun_frame split: option.splits if_splits)
    from candidature_update_frame [OF u f] show ?thesis by simp
  qed
next
  fix c
  assume h: "candidature_findUnique i s = Some c
        \<and> \<not> invalid_psychologue (ud_assignedPsychologueId dto) s \<and> faultAfter s = None"
  have eq: "(\<lambda>c. c\<lparr>c_dpNumber :=
                 (if ud_dpNumber dto \<noteq> Undefined
                  then create_column (ud_dpNumber dto) else c_dpNumber c),
               c_examDate :=
                 (if ud_examDate dto \<noteq> Undefined
                  then (if truthy (ud_examDate dto) then create_column (ud_examDate dto) else None)
                  else c_examDate c),
               c_assignedPsychologueId :=
                 (if ud_assignedPsychologueId dto \<noteq> Undefined
                  then (if truthy (ud_assignedPsychologueId dto)
                        then create_column (ud_assignedPsychologueId dto) else None)
                  else c_assignedPsychologueId c),
               c_assignedBy :=
                 (if ud_assignedPsychologueId dto \<noteq> Undefined
                  then Some userId else c_assignedBy c)\<rparr>) = updated_row dto userId"
    by (rule ext, cases "ud_dpNumber dto"; cases "ud_examDate dto";
        cases "ud_assignedPsychologueId dto") (simp_all add: updated_row_def)
  show "update i dto userId s =
        (Inr (updated_row dto userId c),
         s\<lparr>candidatures :=
             map (\<lambda>r. if c_id r = i then updated_row dto userId r else r) (candidatures s)\<rparr>)
      \<and> c_status (updated_row dto userId c) = c_status c
      \<and> outside_update (updated_row dto userId c) = outside_update c"
    using h
    by (simp add: update_def eq candidature_update_no_fault)
       (simp add: updated_row_def outside_update_def)
qed

theorem update_frame_witness:
  "candidature_findUnique 41 ex_cand_db = Some (ex_candidature 41 33 pending)
 \<and> \<not> invalid_psychologue (ud_assignedPsychologueId ex_update) ex_cand_db
 \<and> faultAfter ex_cand_db = None
 \<and> fst (update 41 ex_update 1 ex_cand_db)
     = Inr ((ex_candidature 41 33 pending)
              \<lparr>c_dpNumber := Some ''DP-7'', c_assignedPsychologueId := Some 2,
                c_assignedBy := Some 1\<rparr>)
 \<and> candidatureStateTransitions (snd (update 41 ex_update 1 ex_cand_db)) = []
 \<and> map c_status (candidatures (snd (update 41 ex_update 1 ex_cand_db)))
     = [evaluated, pending]"
proof -
  have h1: "candidature_findUnique 41 ex_cand_db = Some (ex_candidature 41 33 pending)
        \<and> \<not> invalid_psychologue (ud_assignedPsychologueId ex_update) ex_cand_db
        \<and> faultAfter ex_cand_db = None"
    by (simp add: candidature_findUnique_def user_findUnique_def ex_cand_defs)
  note T = update_frame [of 41 ex_update 1 ex_cand_db]
  from T h1 have r: "update 41 ex_update 1 ex_cand_db =
        (Inr (updated_row ex_update 1 (ex_candidature 41 33 pending)),
         ex_cand_db\<lparr>candidatures :=
             map (\<lambda>r. if c_id r = 41 then updated_row ex_update 1 r else r)
               (candidatures ex_cand_db)\<rparr>)"
    by blast
  have p: "update 41 ex_update 1 ex_cand_db
      = (fst (update 41 ex_update 1 ex_cand_db), snd (update 41 ex_update 1 ex_cand_db))"
    by simp
  from T p have f: "candidatureStateTransitions (snd (update 41 ex_update 1 ex_cand_db))
        = candidatureStateTransitions ex_cand_db"
    "map c_status (candidatures (snd (update 41 ex_update 1 ex_cand_db)))
        = map c_status (candidatures ex_cand_db)"
    by blast+
  from r have c1: "fst (update 41 ex_update 1 ex_cand_db)
     = Inr ((ex_candidature 41 33 pending)
              \<lparr>c_dpNumber := Some ''DP-7'', c_assignedPsychologueId := Some 2,
                c_assignedBy := Some 1\<rparr>)"
    by (simp add: updated_row_def ex_cand_defs)
  from f have c2: "candidatureStateTransitions (snd (update 41 ex_update 1 ex_cand_db)) = []"
    "map c_status (candidatures (snd (update 41 ex_update 1 ex_cand_db))) = [evaluated, pending]"
    by (simp_all add: ex_cand_defs)
  from h1 c1 c2 show ?thesis by blast
qed

subsection \<open>Assigning tests\<close>

lemma assignTests_success_cases:
  assumes "assignTests i dto assignedBy now s = (Inr c1, s1)"
  shows "\<exists>c. candidature_findUnique i s = Some c
      \<and> (c_status c = pending \<or> c_status c = assigned)
      \<and> at_logicalTestId dto \<in> set (logicalTests s)
      \<and> (\<forall>t. at_optionalLogicalTestId dto = Defined t \<longrightarrow> t \<in> set (logicalTests s))"
  using assms
  by (cases "at_optionalLogicalTestId dto")
    (auto simp: assignTests_def split: option.splits if_splits)

lemma assignTests_no_fault:
  assumes "candidature_findUnique i s = Some c"
    "c_status c = pending \<or> c_status c = assigned"
    "at_logicalTestId dto \<in> set (logicalTests s)"
    "\<forall>t. at_optionalLogicalTestId dto = Defined t \<longrightarrow> t \<in> set (logicalTests s)"
    "faultAfter s = None"
  shows "assignTests i dto assignedBy now s =
     (Inr (with_tests dto (personalityTests s) (c_examDate c) c),
      (if c_status c = pending
       then s\<lparr>candidatureStateTransitions :=
                candidatureStateTransitions s @ [tests_assigned_entry (nextId s) i assignedBy now],
              nextId := Suc (nextId s)\<rparr>
       else s)
      \<lparr>candidatures :=
         map (\<lambda>r. if c_id r = i then with_tests dto (personalityTests s) (c_examDate c) r else r)
           (candidatures s)\<rparr>)"
proof -
  have f: "(\<lambda>ca. ca
      \<lparr>c_assignedLogicalTestId := Some (at_logicalTestId dto),
       c_assignedOptionalLogicalTestId :=
         update_column (at_optionalLogicalTestId dto) (c_assignedOptionalLogicalTestId ca),
       c_assignedPersonalityTestId :=
         update_column
           (if at_includePersonalityTest dto \<noteq> Defined False
            then (case find pt_isActive (personalityTests s) of
                    Some personalityTest \<Rightarrow> Defined (pt_id personalityTest)
                  | None \<Rightarrow> Undefined)
            else Undefined) (c_assignedPersonalityTestId ca),
       c_examDate :=
         (if truthy (at_examDate dto) then create_column (at_examDate dto) else c_examDate c),
       c_status := assigned\<rparr>) = with_tests dto (personalityTests s) (c_examDate c)"
    by (rule ext, cases "at_optionalLogicalTestId dto"; cases "at_examDate dto";
        cases "find pt_isActive (personalityTests s)")
      (simp_all add: with_tests_def)
  have opt: "\<not> (case at_optionalLogicalTestId dto of
                     Defined optId \<Rightarrow> \<not> List.member (logicalTests s) optId
                   | Undefined \<Rightarrow> False
                   | Null \<Rightarrow> False)"
    using assms(4) by (cases "at_optionalLogicalTestId dto") auto
  from assms(2) show ?thesis
  proof
    assume p: "c_status c = pending"
    with assms(1,3,5) opt show ?thesis
      unfolding assignTests_def Let_def
      by (simp add: f transaction_def candidatureStateTransition_create_no_fault
          candidature_update_no_fault candidature_findUnique_def tests_assigned_entry_def)
  next
    assume a: "c_status c = assigned"
    with assms(1,3,5) opt show ?thesis
      unfolding assignTests_def Let_def
      by (simp add: f transaction_def candidature_update_no_fault)
  qed
qed

lemma with_tests_idem:
  "with_tests dto pts (c_examDate (with_tests dto pts e c0)) (with_tests dto pts e c)
     = with_tests dto pts e c"
  by (cases "at_optionalLogicalTestId dto"; cases "at_examDate dto"; cases "find pt_isActive pts")
    (simp_all add: with_tests_def)

lemma with_tests_id [simp]: "c_id (with_tests dto pts e c) = c_id c"
  by (simp add: with_tests_def)

lemma with_tests_status [simp]: "c_status (with_tests dto pts e c) = assigned"
  by (simp add: with_tests_def)

text \<open>
  Claim C6. When \<open>assignTests\<close> succeeds (the persistence layer not failing), the
  status of the candidature is \<open>assigned\<close>, and a second call with the same arguments
  succeeds with the same row and leaves the whole database, the log included, as the
  first call left it. The first call appends one log entry when the candidature was
  pending and none when it was already assigned.
\<close>

theorem assignTests_idempotent:
  assumes "faultAfter s = None" and "assignTests i dto assignedBy now s = (Inr c1, s1)"
  shows "c_status c1 = assigned
     \<and> candidature_findUnique i s1 = Some c1
     \<and> assignTests i dto assignedBy now' s1 = (Inr c1, s1)
     \<and> (\<exists>c. candidature_findUnique i s = Some c
          \<and> candidatureStateTransitions s1 =
              candidatureStateTransitions s
                @ (if c_status c = pending
                   then [tests_assigned_entry (nextId s) i assignedBy now] else []))"
proof -
  from assignTests_success_cases [OF assms(2)] obtain c where
    c: "candidature_findUnique i s = Some c"
      "c_status c = pending \<or> c_status c = assigned"
      "at_logicalTestId dto \<in> set (logicalTests s)"
      "\<forall>t. at_optionalLogicalTestId dto = Defined t \<longrightarrow> t \<in> set (logicalTests s)"
    by blast
  define f where "f = with_tests dto (personalityTests s) (c_examDate c)"
  note first = assignTests_no_fault [OF c assms(1), of assignedBy now]
  from first assms(2) have c1: "c1 = f c"
    and s1: "s1 = (if c_status c = pending
       then s\<lparr>candidatureStateTransitions :=
                candidatureStateTransitions s @ [tests_assigned_entry (nextId s) i assignedBy now],
              nextId := Suc (nextId s)\<rparr>
       else s)
      \<lparr>candidatures := map (\<lambda>r. if c_id r = i then f r else r) (candidatures s)\<rparr>"
    by (simp_all add: f_def)
  have found: "candidature_findUnique i s1 = Some c1"
    using c(1) find_map_if [of c_id f i "candidatures s"]
    by (simp add: s1 c1 candidature_findUnique_def f_def)
  have st: "c_status c1 = assigned" by (simp add: c1 f_def)
  have same: "personalityTests s1 = personalityTests s" "logicalTests s1 = logicalTests s"
    "faultAfter s1 = None"
    using assms(1) by (simp_all add: s1)
  have idem: "map (\<lambda>r. if c_id r = i
                 then with_tests dto (personalityTests s1) (c_examDate c1) r else r)
               (candidatures s1) = candidatures s1"
    by (simp add: s1 c1 f_def with_tests_idem cong: if_cong)
  have second: "assignTests i dto assignedBy now' s1 = (Inr c1, s1)"
    using assignTests_no_fault [of i s1 c1 dto assignedBy now'] found st c(3,4) same idem
    by (simp add: c1 f_def with_tests_idem)
  have log: "candidatureStateTransitions s1 =
      candidatureStateTransitions s
        @ (if c_status c = pending
           then [tests_assigned_entry (nextId s) i assignedBy now] else [])"
    by (simp add: s1)
  from st found second c(1) log show ?thesis by blast
qed

theorem assignTests_idempotent_witness:
  "faultAfter ex_cand_db = None
 \<and> fst (assignTests 41 ex_assign_tests 1 5 ex_cand_db)
     = Inr ((ex_candidature 41 33 assigned)
              \<lparr>c_assignedLogicalTestId := Some 50, c_assignedPersonalityTestId := Some 60,
                c_examDate := Some 777\<rparr>)
 \<and> assignTests 41 ex_assign_tests 1 9 (snd (assignTests 41 ex_assign_tests 1 5 ex_cand_db))
     = assignTests 41 ex_assign_tests 1 5 ex_cand_db
 \<and> candidatureStateTransitions (snd (assignTests 41 ex_assign_tests 1 5 ex_cand_db))
     = [tests_assigned_entry 100 41 1 5]"
proof -
  let ?c1 = "(ex_candidature 41 33 assigned)
              \<lparr>c_assignedLogicalTestId := Some 50, c_assignedPersonalityTestId := Some 60,
                c_examDate := Some 777\<rparr>"
  let ?s1 = "snd (assignTests 41 ex_assign_tests 1 5 ex_cand_db)"
  have h1: "faultAfter ex_cand_db = None"
    by (simp add: ex_cand_defs)
  have e: "fst (assignTests 41 ex_assign_tests 1 5 ex_cand_db) = Inr ?c1"
    by (simp add: assignTests_def candidature_findUnique_def transaction_def
        candidatureStateTransition_create_def candidature_update_def db_write_def Let_def
        ex_cand_defs)
  then have h2: "assignTests 41 ex_assign_tests 1 5 ex_cand_db = (Inr ?c1, ?s1)"
    by (metis prod.collapse)
  have pend: "candidature_findUnique 41 ex_cand_db = Some (ex_candidature 41 33 pending)"
    by (simp add: candidature_findUnique_def ex_cand_defs)
  from assignTests_idempotent [OF h1 h2, of 9] pend
  have "assignTests 41 ex_assign_tests 1 9 ?s1 = (Inr ?c1, ?s1)"
    and "candidatureStateTransitions ?s1 =
      candidatureStateTransitions ex_cand_db
        @ (if c_status (ex_candidature 41 33 pending) = pending
           then [tests_assigned_entry (nextId ex_cand_db) 41 1 5] else [])"
    by auto
  then have "assignTests 41 ex_assign_tests 1 9 ?s1 = assignTests 41 ex_assign_tests 1 5 ex_cand_db"
    and "candidatureStateTransitions ?s1 = [tests_assigned_entry 100 41 1 5]"
    using h2 by (simp_all add: ex_cand_defs)
  with h1 e show ?thesis by blast
qed

subsection \<open>Status change and log entry as one unit\<close>

lemma archive_all_or_nothing:
  "archive i archivedBy now s = (Inl e, s') \<Longrightarrow> s' = s"
  by (auto simp: archive_def split: option.splits if_splits dest: transaction_Inl)

lemma makeDecision_all_or_nothing:
  "makeDecision i dto decidedBy now s = (Inl e, s') \<Longrightarrow> s' = s"
  by (auto simp: makeDecision_def split: option.splits if_splits dest: transaction_Inl)

lemma assignTests_all_or_nothing:
  "assignTests i dto assignedBy now s = (Inl e, s') \<Longrightarrow> s' = s"
  by (auto simp: assignTests_def Let_def split: option.splits if_splits dest: transaction_Inl)

lemma assignPsychologue_all_or_nothing:
  "assignPsychologue i dto assignedByOpt now s = (Inl e, s') \<Longrightarrow> s' = s"
  by (auto simp: assignPsychologue_def split: option.splits if_splits dest: transaction_Inl)

lemma createManual_all_or_nothing:
  "createManual dto createdBy now s = (Inl e, s') \<Longrightarrow> s' = s"
  by (auto simp: createManual_def split: option.splits if_splits dest: transaction_Inl)

lemma archive_writes_both:
  assumes "archive i archivedBy now s = (Inr c', s')"
  shows "c_status c' = archived
     \<and> candidatures s' =
         map (\<lambda>r. if c_id r = i then r\<lparr>c_status := archived\<rparr> else r) (candidatures s)
     \<and> candidatureStateTransitions s' =
         candidatureStateTransitions s @ [archived_entry (nextId s) i archivedBy now]"
proof -
  from assms obtain c where c: "candidature_findUnique i s = Some c" "c_status c = evaluated"
    by (auto simp: archive_def split: option.splits if_splits)
  with assms obtain tx1 where
    l: "candidatureStateTransition_create
          \<lparr>t_id = 0, t_candidatureId = i, t_fromStatus = Some evaluated, t_toStatus = archived,
           t_transitionedBy = archivedBy, t_transitionedAt = now, t_reason = Some ''Archived''\<rparr> s
        = (Inr (), tx1)" and
    u: "candidature_update i (\<lambda>c. c\<lparr>c_status := archived\<rparr>) tx1 = (Inr c', s')"
    by (auto simp: archive_def split: prod.splits sum.splits dest!: transaction_Inr)
  from u have "c_status c' = archived"
    by (auto simp: candidature_update_def split: option.splits dest!: db_write_cases)
  with candidatureStateTransition_create_Inr [OF l] candidature_update_Inr [OF u]
  show ?thesis by (simp add: archived_entry_def)
qed

lemma candidature_update_result:
  "candidature_update i f s = (Inr r, s1) \<Longrightarrow>
     \<exists>row. candidature_findUnique i s = Some row \<and> r = f row"
  by (auto simp: candidature_update_def split: option.splits dest!: db_write_cases)

lemma log_if_then_update_Inr:
  assumes "transaction (\<lambda>tx.
      case (if P then candidatureStateTransition_create data tx else (Inr (), tx)) of
        (Inl e, tx1) \<Rightarrow> (Inl e, tx1)
      | (Inr u, tx1) \<Rightarrow> candidature_update i f tx1) s = (Inr c', s')"
  shows "candidatureStateTransitions s' =
      candidatureStateTransitions s @ (if P then [data\<lparr>t_id := nextId s\<rparr>] else [])
    \<and> candidatures s' = map (\<lambda>c. if c_id c = i then f c else c) (candidatures s)
    \<and> (\<exists>row. candidature_findUnique i s = Some row \<and> c' = f row)"
proof -
  from assms obtain tx1 where
    l: "(if P then candidatureStateTransition_create data s else (Inr (), s)) = (Inr (), tx1)"
    and u: "candidature_update i f tx1 = (Inr c', s')"
    by (auto dest!: transaction_Inr split: prod.splits sum.splits)
  have a: "candidatureStateTransitions tx1 =
      candidatureStateTransitions s @ (if P then [data\<lparr>t_id := nextId s\<rparr>] else [])"
    and b: "candidatures tx1 = candidatures s"
    using l candidatureStateTransition_create_Inr [of data s "()" tx1]
    by (auto split: if_splits)
  from b have "candidature_findUnique i tx1 = candidature_findUnique i s"
    by (simp add: candidature_findUnique_def)
  with candidature_update_Inr [OF u] candidature_update_result [OF u] a b
  show ?thesis by simp
qed

lemma log_then_update_Inr:
  assumes "transaction (\<lambda>tx.
      case candidatureStateTransition_create data tx of
        (Inl e, tx1) \<Rightarrow> (Inl e, tx1)
      | (Inr u, tx1) \<Rightarrow> candidature_update i f tx1) s = (Inr c', s')"
  shows "candidatureStateTransitions s' = candidatureStateTransitions s @ [data\<lparr>t_id := nextId s\<rparr>]
    \<and> candidatures s' = map (\<lambda>c. if c_id c = i then f c else c) (candidatures s)
    \<and> (\<exists>row. candidature_findUnique i s = Some row \<and> c' = f row)"
  using log_if_then_update_Inr [where P = True and data = data and i = i and f = f] assms by simp

lemma update_only_Inr:
  assumes "transaction (candidature_update i f) s = (Inr c', s')"
  shows "candidatureStateTransitions s' = candidatureStateTransitions s
    \<and> candidatures s' = map (\<lambda>c. if c_id c = i then f c else c) (candidatures s)
    \<and> (\<exists>row. candidature_findUnique i s = Some row \<and> c' = f row)"
  using transaction_Inr [OF assms] candidature_update_Inr candidature_update_result
  by blast

lemmas committed = log_if_then_update_Inr log_then_update_Inr update_only_Inr

lemma makeDecision_writes_both:
  assumes "makeDecision i dto decidedBy now s = (Inr c', s')"
  shows "\<exists>c entry. candidature_findUnique i s = Some c
     \<and> c_status c' = evaluated
     \<and> map c_status (candidatures s') =
         map (\<lambda>r. if c_id r = i then evaluated else c_status r) (candidatures s)
     \<and> candidatureStateTransitions s' = candidatureStateTransitions s @ [entry]
     \<and> t_candidatureId entry = i \<and> t_fromStatus entry = Some (c_status c)
     \<and> t_toStatus entry = evaluated"
  using assms
  by (auto simp: makeDecision_def comp_def split: option.splits if_splits
      dest!: committed)

lemma assignTests_writes_both:
  assumes "assignTests i dto assignedBy now s = (Inr c', s')"
  shows "\<exists>c. candidature_findUnique i s = Some c
     \<and> c_status c' = assigned
     \<and> map c_status (candidatures s') =
         map (\<lambda>r. if c_id r = i then assigned else c_status r) (candidatures s)
     \<and> candidatureStateTransitions s' =
         candidatureStateTransitions s
           @ (if c_status c = pending
              then [tests_assigned_entry (nextId s) i assignedBy now] else [])"
  using assms
  by (auto simp: assignTests_def Let_def comp_def tests_assigned_entry_def
      split: option.splits if_splits dest!: committed)

lemma assignPsychologue_writes_both:
  assumes "assignPsychologue i dto assignedByOpt now s = (Inr c', s')"
  shows "\<exists>c. candidature_findUnique i s = Some c
     \<and> c_status c' = (if c_status c = pending then assigned else c_status c)
     \<and> (\<exists>entries. candidatureStateTransitions s' = candidatureStateTransitions s @ entries
          \<and> length entries = (if c_status c = pending then 1 else 0)
          \<and> (\<forall>entry \<in> set entries. t_candidatureId entry = i
                \<and> t_fromStatus entry = Some pending \<and> t_toStatus entry = assigned))"
proof -
  from assms obtain assignedBy c psy where
    k: "assignedByOpt = Some assignedBy" "candidature_findUnique i s = Some c"
       "user_findUnique (psychologueId dto) s = Some psy" "u_role psy = psychologue"
    by (auto simp: assignPsychologue_def split: option.splits if_splits)
  show ?thesis
  proof (cases "c_status c = pending")
    case True
    with assms k have "c_status c' = assigned
      \<and> (\<exists>entry. candidatureStateTransitions s' = candidatureStateTransitions s @ [entry]
            \<and> t_candidatureId entry = i \<and> t_fromStatus entry = Some pending
            \<and> t_toStatus entry = assigned)"
      by (auto simp: assignPsychologue_def dest!: log_then_update_Inr)
    then obtain entry where "c_status c' = assigned"
      "candidatureStateTransitions s' = candidatureStateTransitions s @ [entry]"
      "t_candidatureId entry = i" "t_fromStatus entry = Some pending" "t_toStatus entry = assigned"
      by blast
    with k(2) True show ?thesis
      by (intro exI [of _ c] conjI exI [of _ "[entry]"]) simp_all
  next
    case False
    with assms k have "c_status c' = c_status c
      \<and> candidatureStateTransitions s' = candidatureStateTransitions s"
      by (auto simp: assignPsychologue_def dest!: update_only_Inr)
    with k(2) False show ?thesis
      by (intro exI [of _ c] conjI exI [of _ "[]"]) simp_all
  qed
qed

text \<open>
  Claim C1. The operations that run in a transaction leave the database untouched when
  they fail (lemmas \<open>*_all_or_nothing\<close>) and write the status and its log entry
  together when they succeed (lemmas \<open>*_writes_both\<close>). \<open>create\<close> with an immediate
  assignment does not: with a persistence layer that accepts one write and refuses the
  next, the candidature is stored in status \<open>assigned\<close>, the call fails, and the
  candidature has no log entry.
\<close>

theorem create_partial_write:
  "create ex_create_assigned 1 5 (ex_cand_db\<lparr>faultAfter := Some 1\<rparr>)
     = (Inl PrismaClientError,
        ex_cand_db\<lparr>candidatures := candidatures ex_cand_db
                       @ [(ex_candidature 100 30 assigned)
                            \<lparr>c_assignedPsychologueId := Some 2, c_assignedBy := Some 1,
                              c_dpNumber := Some ''DP-2026-001''\<rparr>],
                    nextId := 101, faultAfter := Some 0\<rparr>)
 \<and> transitions_of 100
       (snd (create ex_create_assigned 1 5 (ex_cand_db\<lparr>faultAfter := Some 1\<rparr>))) = []"
  by (simp add: create_def jobApplication_findUnique_def jobApplication_candidature_def
      user_findUnique_def candidature_create_def candidatureStateTransition_create_def
      db_write_def transitions_of_def Let_def ex_cand_defs)

end
